theory Spec2Isabelle
  imports Complex_Main "HOL-Library.AList"
begin

section \<open>Tables, cells and Python exceptions\<close>

text \<open>
  A pandas DataFrame is modelled as an ordered list of named columns. A column has a dtype
  tag (only the distinction between the categorical dtype and every other dtype matters
  for this library) and its cells. Numbers are ideal reals standing for pandas floats and
  ints; \<open>Null\<close> stands for both \<open>None\<close> and \<open>NaN\<close>/\<open>NaT\<close>. A \<open>Date\<close> cell is a pandas
  Timestamp reduced to year, month and day.
\<close>

datatype cell = Null | Num real | Str string | Date int int int

datatype dtype = Plain | Category

record column =
  dtype :: dtype
  cells :: "cell list"

type_synonym table = "(string \<times> column) list"

text \<open>The argument \<open>X\<close> of fit and transform is any Python object.\<close>

datatype pyobj = DataFrame table | NotDataFrame

text \<open>
  Exceptions, with their messages where the library writes them. \<open>SklearnError\<close> stands for
  any exception raised inside a scikit-learn estimator, which is opaque here. \<open>Unmodelled\<close>
  is not an exception: it marks an input on which the model does not say what pandas
  does (the call may return or raise), so that nothing is concluded there.
\<close>

datatype error =
    ValueError string
  | NotFittedError string
  | KeyError string
  | TypeError
  | AttributeError
  | DateParseError
  | SklearnError
  | Unmodelled

text \<open>
  A method that assigns to attributes of the instance and may raise afterwards is modelled
  by the attributes it leaves together with the exception, if any; \<open>returned\<close> is what
  the caller gets.
\<close>

definition returned :: "'s \<times> error option \<Rightarrow> error + 's" where
  "returned r = (case snd r of None \<Rightarrow> Inr (fst r) | Some e \<Rightarrow> Inl e)"

section \<open>utils.py\<close>

definition check_fill :: "pyobj \<Rightarrow> error + table" where
  "check_fill X = (case X of DataFrame T \<Rightarrow> Inr T
                   | NotDataFrame \<Rightarrow> Inl (ValueError ''X is not pandas DataFrame''))"

text \<open>
  \<open>check_transform\<close>: the fitted item enters only through its truth value, so the model
  takes \<open>falsy = (not fitted_item)\<close>. The default \<open>fitted_item=None\<close> is falsy.
\<close>

definition check_transform :: "pyobj \<Rightarrow> bool \<Rightarrow> string \<Rightarrow> bool \<Rightarrow> error + table" where
  "check_transform X falsy transformer_name is_check_fill =
     (case check_fill X of
        Inl e \<Rightarrow> Inl e
      | Inr T \<Rightarrow>
          if is_check_fill \<and> falsy
          then Inl (NotFittedError (transformer_name @ '' transformer was not fitted''))
          else Inr T)"

section \<open>pandas primitives\<close>

definition bindE :: "error + 'a \<Rightarrow> ('a \<Rightarrow> error + 'b) \<Rightarrow> error + 'b" where
  "bindE m f = (case m of Inl e \<Rightarrow> Inl e | Inr x \<Rightarrow> f x)"

definition columns :: "table \<Rightarrow> string list" where
  "columns T = map fst T"

text \<open>
  pandas allows a label to stand for several columns of a frame. \<open>X[col]\<close> is then a
  frame, not a column, and what the library's code does with it differs from place to
  place: the model says it where a definition tests \<open>repeated\<close>, and marks the read
  \<open>Unmodelled\<close> elsewhere.
\<close>

definition repeated :: "table \<Rightarrow> string \<Rightarrow> bool" where
  "repeated X col = (1 < length (filter (\<lambda>p. fst p = col) X))"

text \<open>\<open>X[col]\<close>: the column, or KeyError.\<close>

definition get_col :: "table \<Rightarrow> string \<Rightarrow> error + column" where
  "get_col T c =
     (if repeated T c then Inl Unmodelled
      else case map_of T c of None \<Rightarrow> Inl (KeyError c) | Some v \<Rightarrow> Inr v)"

text \<open>\<open>X[col] = series\<close>: replaces the column where it stands, or appends a new one.\<close>

definition set_col :: "table \<Rightarrow> string \<Rightarrow> column \<Rightarrow> table" where
  "set_col T c v = AList.update c v T"

text \<open>\<open>X[[c1, ..., cn]]\<close>: the sub-table in the order asked for; KeyError on a missing label.\<close>

fun select_cols :: "table \<Rightarrow> string list \<Rightarrow> error + table" where
  "select_cols T [] = Inr []"
| "select_cols T (c # cs) =
     bindE (get_col T c) (\<lambda>v. bindE (select_cols T cs) (\<lambda>R. Inr ((c, v) # R)))"

text \<open>\<open>X.drop(labels, axis=1)\<close>: KeyError when a label is not a column.\<close>

definition drop_cols :: "table \<Rightarrow> string list \<Rightarrow> error + table" where
  "drop_cols T labels =
     (case filter (\<lambda>c. c \<notin> set (columns T)) labels of
        [] \<Rightarrow> Inr (filter (\<lambda>p. fst p \<notin> set labels) T)
      | c # _ \<Rightarrow> Inl (KeyError c))"

text \<open>\<open>X[keys] = frame\<close>: pandas pairs the keys with the frame's columns by position,
  \<open>X[k1] = frame[k2]\<close>, and refuses a frame of another width; where a label of the frame
  is repeated, \<open>frame[k2]\<close> is itself a frame and the assignment is refused too.\<close>

fun assign_each :: "table \<Rightarrow> (string \<times> column) list \<Rightarrow> table" where
  "assign_each T [] = T"
| "assign_each T ((k, v) # kvs) = assign_each (set_col T k v) kvs"

definition set_cols :: "table \<Rightarrow> string list \<Rightarrow> table \<Rightarrow> error + table" where
  "set_cols T keys V =
     (if length keys \<noteq> length V \<or> \<not> distinct (columns V)
      then Inl (ValueError ''Columns must be same length as key'')
      else Inr (assign_each T (zip keys (map snd V))))"

text \<open>\<open>Series.nunique()\<close> counts the distinct non-null values.\<close>

definition nunique :: "column \<Rightarrow> nat" where
  "nunique c = length (remdups (filter (\<lambda>x. x \<noteq> Null) (cells c)))"

text \<open>\<open>Series.isnull().all()\<close>.\<close>

definition all_null :: "column \<Rightarrow> bool" where
  "all_null c = list_all (\<lambda>x. x = Null) (cells c)"

subsection \<open>Numeric reductions\<close>

text \<open>
  The numeric view of a column: \<open>None\<close> is NaN. The reductions and comparisons of
  pandas raise TypeError on the categorical dtype. On a column of strings or of dates
  pandas computes some of them (\<open>min\<close>, \<open>max\<close>, comparisons, \<open>clip\<close>) and refuses
  others; the model covers numeric columns only and marks the rest \<open>Unmodelled\<close>.

  Numbers are ideal reals and the arithmetic below is exact, where pandas computes in
  float64 (and compares an int64 column with a float64 bound in float64). The two agree
  where every intermediate value is a float64: \<open>exact_ints\<close> is the condition used for
  that, a column of at most \<open>2^31\<close> cells whose values are integers of magnitude at most
  \<open>2^40\<close>. Then the positions \<open>q (n - 1)\<close> for \<open>q\<close> a quarter or three quarters, the
  interpolated quartiles, their difference, its product with 1.5 and the bounds are all
  multiples of 1/8 below \<open>2^44\<close>, which float64 holds without rounding. Outside this
  condition the quartiles, bounds and comparisons of the model may differ from those of
  the code by rounding.
\<close>

fun num_of :: "cell \<Rightarrow> error + real option" where
  "num_of Null = Inr None"
| "num_of (Num x) = Inr (Some x)"
| "num_of (Str s) = Inl Unmodelled"
| "num_of (Date y m d) = Inl Unmodelled"

fun nums_of :: "cell list \<Rightarrow> error + real option list" where
  "nums_of [] = Inr []"
| "nums_of (x # xs) = bindE (num_of x) (\<lambda>v. bindE (nums_of xs) (\<lambda>vs. Inr (v # vs)))"

definition numeric :: "column \<Rightarrow> error + real option list" where
  "numeric c = (if dtype c = Category then Inl TypeError else nums_of (cells c))"

fun cell_of :: "real option \<Rightarrow> cell" where
  "cell_of None = Null"
| "cell_of (Some x) = Num x"

fun dropna :: "real option list \<Rightarrow> real list" where
  "dropna [] = []"
| "dropna (None # xs) = dropna xs"
| "dropna (Some x # xs) = x # dropna xs"


text \<open>\<open>min()\<close>, \<open>max()\<close>, \<open>mean()\<close>, \<open>std()\<close> (sample, ddof=1) and \<open>quantile(q)\<close> (linear
  interpolation) skip NaN and give NaN when too few values remain.\<close>

definition s_min :: "real option list \<Rightarrow> real option" where
  "s_min xs = (case dropna xs of [] \<Rightarrow> None | v # vs \<Rightarrow> Some (fold min vs v))"

definition s_max :: "real option list \<Rightarrow> real option" where
  "s_max xs = (case dropna xs of [] \<Rightarrow> None | v # vs \<Rightarrow> Some (fold max vs v))"

definition s_mean :: "real option list \<Rightarrow> real option" where
  "s_mean xs = (let v = dropna xs in
     if v = [] then None else Some (sum_list v / real (length v)))"

definition s_std :: "real option list \<Rightarrow> real option" where
  "s_std xs = (let v = dropna xs; n = length v in
     if n < 2 then None
     else (let m = sum_list v / real n in
           Some (sqrt (sum_list (map (\<lambda>x. (x - m)\<^sup>2) v) / real (n - 1)))))"

definition s_quantile :: "real \<Rightarrow> real option list \<Rightarrow> real option" where
  "s_quantile q xs = (let v = sort (dropna xs); n = length v in
     if n = 0 then None
     else (let pos = q * real (n - 1); lo = nat \<lfloor>pos\<rfloor>; hi = nat \<lceil>pos\<rceil> in
           Some (v ! lo + (v ! hi - v ! lo) * (pos - real lo))))"

text \<open>Arithmetic and comparison with NaN: an operation on NaN is NaN, a comparison with
  NaN is false.\<close>

definition nan2 :: "(real \<Rightarrow> real \<Rightarrow> real) \<Rightarrow> real option \<Rightarrow> real option \<Rightarrow> real option" where
  "nan2 f a b = (case a of None \<Rightarrow> None | Some x \<Rightarrow> (case b of None \<Rightarrow> None | Some y \<Rightarrow> Some (f x y)))"

definition ge_nan :: "real option \<Rightarrow> real option \<Rightarrow> bool" where
  "ge_nan a b = (case a of None \<Rightarrow> False | Some x \<Rightarrow> (case b of None \<Rightarrow> False | Some y \<Rightarrow> y \<le> x))"

definition le_nan :: "real option \<Rightarrow> real option \<Rightarrow> bool" where
  "le_nan a b = (case a of None \<Rightarrow> False | Some x \<Rightarrow> (case b of None \<Rightarrow> False | Some y \<Rightarrow> x \<le> y))"

text \<open>
  \<open>Series.clip(lower, upper)\<close> with scalar bounds: a NaN bound is no bound, bounds given
  in the wrong order are swapped, NaN cells stay NaN; values below the lower bound are
  set to it, then values above the upper bound are set to it.
\<close>

definition clip_val :: "real option \<Rightarrow> real option \<Rightarrow> real option \<Rightarrow> real option" where
  "clip_val lower upper x =
     (case x of
        None \<Rightarrow> None
      | Some v \<Rightarrow>
          (let v1 = (case lower of None \<Rightarrow> v | Some l \<Rightarrow> if l \<le> v then v else l);
               v2 = (case upper of None \<Rightarrow> v1 | Some u \<Rightarrow> if v1 \<le> u then v1 else u)
           in Some v2))"

definition clip :: "real option \<Rightarrow> real option \<Rightarrow> column \<Rightarrow> error + column" where
  "clip lower upper c =
     (if lower = None \<and> upper = None then Inr c
      else bindE (numeric c) (\<lambda>xs.
        let lo = (if lower \<noteq> None \<and> upper \<noteq> None then nan2 min lower upper else lower);
            hi = (if lower \<noteq> None \<and> upper \<noteq> None then nan2 max lower upper else upper)
        in Inr (c\<lparr>cells := map (\<lambda>x. cell_of (clip_val lo hi x)) xs\<rparr>)))"

text \<open>Python truth value of an optional dict or list: \<open>None\<close> and the empty one are falsy.\<close>

definition falsy :: "'a list option \<Rightarrow> bool" where
  "falsy d = (case d of None \<Rightarrow> True | Some l \<Rightarrow> l = [])"

text \<open>\<open>d[k]\<close> on a dict.\<close>

definition dict_get :: "(string \<times> 'v) list \<Rightarrow> string \<Rightarrow> error + 'v" where
  "dict_get d k = (case map_of d k of None \<Rightarrow> Inl (KeyError k) | Some v \<Rightarrow> Inr v)"

section \<open>OutlierRemover\<close>

type_synonym thresholds = "(string \<times> (real option \<times> real option)) list"

record OutlierRemover =
  or_cols_to_transform :: "string list"
  or_method :: string
  or_col_thresholds :: "thresholds option"

definition OutlierRemover_init :: "string list option \<Rightarrow> string \<Rightarrow> error + OutlierRemover" where
  "OutlierRemover_init cols_to_transform method =
     (case cols_to_transform of
        None \<Rightarrow> Inl (ValueError ''cols_to_transform parameter is should be filled'')
      | Some cols \<Rightarrow>
          Inr \<lparr>or_cols_to_transform = cols, or_method = method, or_col_thresholds = None\<rparr>)"

text \<open>The bounds of one column, by method (lines 128 to 146).\<close>

definition bounds :: "string \<Rightarrow> column \<Rightarrow> error + (real option \<times> real option)" where
  "bounds method c =
     (if method = ''iqr'' then
        bindE (numeric c) (\<lambda>xs.
          let q1 = s_quantile (1/4) xs;
              q3 = s_quantile (3/4) xs;
              iqr = nan2 (-) q3 q1;
              left_bound = nan2 (-) q1 (nan2 (*) (Some (3/2)) iqr);
              right_bound = nan2 (+) q3 (nan2 (*) (Some (3/2)) iqr)
          in Inr (left_bound, right_bound))
      else if method = ''std'' then
        bindE (numeric c) (\<lambda>xs.
          let mean = s_mean xs;
              std = s_std xs;
              left_bound = nan2 (-) mean (nan2 (*) (Some 3) std);
              right_bound = nan2 (+) mean (nan2 (*) (Some 3) std)
          in Inr (left_bound, right_bound))
      else if method = ''quantile'' then
        bindE (numeric c) (\<lambda>xs. Inr (s_quantile (1/100) xs, s_quantile (99/100) xs))
      else if method = ''skip'' then
        bindE (numeric c) (\<lambda>xs. Inr (s_min xs, s_max xs))
      else Inl (ValueError (''unknown method '' @ method @ '' for outlier remover'')))"

text \<open>The values of the column inside the bounds, and their minimum and maximum
  (lines 148 and 149).\<close>

definition in_bounds :: "real option \<Rightarrow> real option \<Rightarrow> real option list \<Rightarrow> real option list" where
  "in_bounds left_bound right_bound xs = filter (\<lambda>x. ge_nan x left_bound \<and> le_nan x right_bound) xs"

text \<open>
  The loop of \<open>fit\<close> (lines 127 to 149) writes \<open>self.col_thresholds[col]\<close> column by column;
  when a column raises, the entries written so far stay.
\<close>

definition column_thresholds :: "string \<Rightarrow> table \<Rightarrow> string \<Rightarrow> error + (real option \<times> real option)" where
  "column_thresholds method X col =
     bindE (get_col X col) (\<lambda>c.
     bindE (bounds method c) (\<lambda>(left_bound, right_bound).
     bindE (numeric c) (\<lambda>xs.
       let s = in_bounds left_bound right_bound xs
       in Inr (s_min s, s_max s))))"

fun OutlierRemover_fit_loop ::
  "string \<Rightarrow> table \<Rightarrow> string list \<Rightarrow> thresholds \<Rightarrow> thresholds \<times> error option" where
  "OutlierRemover_fit_loop method X [] th = (th, None)"
| "OutlierRemover_fit_loop method X (col # cols) th =
     (case column_thresholds method X col of
        Inl e \<Rightarrow> (th, Some e)
      | Inr v \<Rightarrow> OutlierRemover_fit_loop method X cols (AList.update col v th))"

text \<open>
  \<open>fit\<close>: the attributes of the instance after the call, and the exception if it raised.
  \<open>cols_to_transform\<close> and \<open>col_thresholds\<close> are assigned (lines 124 and 125) before the
  loop can raise.
\<close>

definition OutlierRemover_fit_run :: "OutlierRemover \<Rightarrow> pyobj \<Rightarrow> OutlierRemover \<times> error option" where
  "OutlierRemover_fit_run self X =
     (case check_fill X of
        Inl e \<Rightarrow> (self, Some e)
      | Inr T \<Rightarrow>
          (let cols = filter (\<lambda>col. col \<in> set (columns T)) (or_cols_to_transform self);
               r = OutlierRemover_fit_loop (or_method self) T cols []
           in (self\<lparr>or_cols_to_transform := cols, or_col_thresholds := Some (fst r)\<rparr>, snd r)))"

definition OutlierRemover_fit :: "OutlierRemover \<Rightarrow> pyobj \<Rightarrow> error + OutlierRemover" where
  "OutlierRemover_fit self X = returned (OutlierRemover_fit_run self X)"

fun OutlierRemover_clip_loop :: "thresholds \<Rightarrow> string list \<Rightarrow> table \<Rightarrow> error + table" where
  "OutlierRemover_clip_loop th [] X' = Inr X'"
| "OutlierRemover_clip_loop th (col # cols) X' =
     bindE (get_col X' col) (\<lambda>c.
     bindE (dict_get th col) (\<lambda>(lower, upper).
     bindE (clip lower upper c) (\<lambda>c'.
       OutlierRemover_clip_loop th cols (set_col X' col c'))))"

definition OutlierRemover_transform :: "OutlierRemover \<Rightarrow> pyobj \<Rightarrow> error + table" where
  "OutlierRemover_transform self X =
     bindE (check_transform X (falsy (or_col_thresholds self)) ''OutlierRemover'' True) (\<lambda>X'.
       OutlierRemover_clip_loop (case or_col_thresholds self of None \<Rightarrow> [] | Some th \<Rightarrow> th)
         (or_cols_to_transform self) X')"

section \<open>NoInfoFeatureRemover\<close>

record NoInfoFeatureRemover =
  nf_cols_to_remove :: "string list option"
  nf_cols_to_except :: "string list"
  nf_verbose :: bool

definition NoInfoFeatureRemover_init :: "string list option \<Rightarrow> bool \<Rightarrow> NoInfoFeatureRemover" where
  "NoInfoFeatureRemover_init cols_to_except verbose =
     \<lparr>nf_cols_to_remove = None,
      nf_cols_to_except = (case cols_to_except of None \<Rightarrow> [] | Some cs \<Rightarrow> cs),
      nf_verbose = verbose\<rparr>"

text \<open>
  \<open>fit\<close>: the loop (lines 89 to 91) appends, in column order, every column with at most
  one distinct non-null value that is not exempted. Where the label \<open>col\<close> is repeated in
  the table, \<open>X[col]\<close> is a frame, \<open>X[col].nunique() <= 1\<close> a Series, and \<open>and\<close> raises
  ValueError on its truth value. The verbose print has no effect on the state.
\<close>

fun NoInfoFeatureRemover_fit_loop ::
  "table \<Rightarrow> string list \<Rightarrow> string list \<Rightarrow> string list \<Rightarrow> string list \<times> error option" where
  "NoInfoFeatureRemover_fit_loop X cols_to_except [] cols_to_remove = (cols_to_remove, None)"
| "NoInfoFeatureRemover_fit_loop X cols_to_except (col # cols) cols_to_remove =
     (if repeated X col then
        (cols_to_remove,
         Some (ValueError ''The truth value of a Series is ambiguous. Use a.empty, a.bool(), a.item(), a.any() or a.all().''))
      else
        (case get_col X col of
           Inl e \<Rightarrow> (cols_to_remove, Some e)
         | Inr c \<Rightarrow>
             if nunique c \<le> 1 \<and> col \<notin> set cols_to_except
             then NoInfoFeatureRemover_fit_loop X cols_to_except cols (cols_to_remove @ [col])
             else NoInfoFeatureRemover_fit_loop X cols_to_except cols cols_to_remove))"

definition NoInfoFeatureRemover_fit_run ::
  "NoInfoFeatureRemover \<Rightarrow> pyobj \<Rightarrow> NoInfoFeatureRemover \<times> error option" where
  "NoInfoFeatureRemover_fit_run self X =
     (case check_fill X of
        Inl e \<Rightarrow> (self, Some e)
      | Inr T \<Rightarrow>
          (let r = NoInfoFeatureRemover_fit_loop T (nf_cols_to_except self) (columns T) []
           in (self\<lparr>nf_cols_to_remove := Some (fst r)\<rparr>, snd r)))"

definition NoInfoFeatureRemover_fit ::
  "NoInfoFeatureRemover \<Rightarrow> pyobj \<Rightarrow> error + NoInfoFeatureRemover" where
  "NoInfoFeatureRemover_fit self X = returned (NoInfoFeatureRemover_fit_run self X)"

definition NoInfoFeatureRemover_transform :: "NoInfoFeatureRemover \<Rightarrow> pyobj \<Rightarrow> error + table" where
  "NoInfoFeatureRemover_transform self X =
     bindE (check_transform X (falsy (nf_cols_to_remove self)) ''NoInfoFeatureRemover'' True) (\<lambda>T.
       drop_cols T (case nf_cols_to_remove self of None \<Rightarrow> [] | Some cs \<Rightarrow> cs))"

section \<open>WithAnotherColumnImputer\<close>

record WithAnotherColumnImputer =
  wa_cols_to_impute :: "(string \<times> string) list"

definition WithAnotherColumnImputer_init ::
  "(string \<times> string) list option \<Rightarrow> error + WithAnotherColumnImputer" where
  "WithAnotherColumnImputer_init cols_to_impute =
     (case cols_to_impute of
        None \<Rightarrow> Inl (ValueError ''cols_to_impute parameter is should be filled'')
      | Some d \<Rightarrow> Inr \<lparr>wa_cols_to_impute = d\<rparr>)"

definition WithAnotherColumnImputer_fit ::
  "WithAnotherColumnImputer \<Rightarrow> pyobj \<Rightarrow> error + WithAnotherColumnImputer" where
  "WithAnotherColumnImputer_fit self X =
     bindE (check_fill X) (\<lambda>T.
       Inr (self\<lparr>wa_cols_to_impute :=
              filter (\<lambda>p. fst p \<in> set (columns T)) (wa_cols_to_impute self)\<rparr>))"

text \<open>\<open>a.fillna(b)\<close>: a null cell of \<open>a\<close> takes the cell of \<open>b\<close> in the same row. A
  categorical column refuses, with TypeError, a value that is not one of its categories.\<close>

definition fillna :: "column \<Rightarrow> column \<Rightarrow> error + column" where
  "fillna a b =
     (if dtype a = Category
         \<and> list_ex (\<lambda>(x, y). x = Null \<and> y \<noteq> Null \<and> y \<notin> set (cells a)) (zip (cells a) (cells b))
      then Inl TypeError
      else Inr (a\<lparr>cells := map (\<lambda>(x, y). if x = Null then y else x) (zip (cells a) (cells b))\<rparr>))"

fun WithAnotherColumnImputer_loop :: "(string \<times> string) list \<Rightarrow> table \<Rightarrow> error + table" where
  "WithAnotherColumnImputer_loop [] X' = Inr X'"
| "WithAnotherColumnImputer_loop ((col, src) # rest) X' =
     bindE (get_col X' col) (\<lambda>a.
     bindE (get_col X' src) (\<lambda>b.
     bindE (fillna a b) (\<lambda>filled.
       WithAnotherColumnImputer_loop rest (set_col X' col filled))))"

definition WithAnotherColumnImputer_transform ::
  "WithAnotherColumnImputer \<Rightarrow> pyobj \<Rightarrow> error + table" where
  "WithAnotherColumnImputer_transform self X =
     bindE (check_transform X (wa_cols_to_impute self = []) ''WithAnotherColumnImputer'' True) (\<lambda>X'.
       WithAnotherColumnImputer_loop (wa_cols_to_impute self) X')"

section \<open>CatCaster\<close>

record CatCaster =
  cc_cols_to_cast :: "string list"

definition CatCaster_init :: "string list \<Rightarrow> CatCaster" where
  "CatCaster_init cols_to_cast = \<lparr>cc_cols_to_cast = cols_to_cast\<rparr>"

definition CatCaster_fit :: "CatCaster \<Rightarrow> pyobj \<Rightarrow> error + CatCaster" where
  "CatCaster_fit self X =
     bindE (check_fill X) (\<lambda>T.
       Inr (self\<lparr>cc_cols_to_cast := filter (\<lambda>col. col \<in> set (columns T)) (cc_cols_to_cast self)\<rparr>))"

text \<open>\<open>frame.astype("category")\<close>.\<close>

definition astype_category :: "table \<Rightarrow> table" where
  "astype_category T = map (\<lambda>(n, c). (n, c\<lparr>dtype := Category\<rparr>)) T"

text \<open>\<open>transform\<close> calls \<open>check_transform(X, is_check_fill=False)\<close>: the fitted item is the
  default \<open>None\<close> and the transformer name the default empty string.\<close>

definition CatCaster_transform :: "CatCaster \<Rightarrow> pyobj \<Rightarrow> error + table" where
  "CatCaster_transform self X =
     bindE (check_transform X True [] False) (\<lambda>T.
     bindE (select_cols T (cc_cols_to_cast self)) (\<lambda>sub.
       set_cols T (cc_cols_to_cast self) (astype_category sub)))"

section \<open>FeaturesOrder\<close>

record FeaturesOrder =
  fo_features_order :: "string list"
  fo_features_order' :: "string list option"

definition FeaturesOrder_init :: "string list \<Rightarrow> FeaturesOrder" where
  "FeaturesOrder_init features_order =
     \<lparr>fo_features_order = features_order, fo_features_order' = None\<rparr>"

definition FeaturesOrder_fit :: "FeaturesOrder \<Rightarrow> pyobj \<Rightarrow> error + FeaturesOrder" where
  "FeaturesOrder_fit self X =
     bindE (check_fill X) (\<lambda>T.
       let order1 = filter (\<lambda>col. col \<in> set (columns T)) (fo_features_order self);
           order2 = order1 @ filter (\<lambda>col. col \<notin> set order1) (columns T)
       in Inr (self\<lparr>fo_features_order' := Some order2\<rparr>))"

definition FeaturesOrder_transform :: "FeaturesOrder \<Rightarrow> pyobj \<Rightarrow> error + table" where
  "FeaturesOrder_transform self X =
     bindE (check_transform X (falsy (fo_features_order' self)) ''OrderFeatures'' True) (\<lambda>T.
       select_cols T (case fo_features_order' self of None \<Rightarrow> [] | Some cs \<Rightarrow> cs))"

section \<open>scikit-learn estimators\<close>

text \<open>
  The scalers and the SimpleImputer of scikit-learn are opaque: a fitted estimator is a
  value of a type \<open>'m\<close>, and fitting and transforming are functions the model takes as a
  parameter; \<open>None\<close> is an exception raised inside scikit-learn. \<open>imputer_fit\<close> takes the
  strategy and the fill value the SimpleImputer is constructed with.
\<close>

datatype scaler_class = StandardScaler | MinMaxScaler | RobustScaler | PowerTransformer

record 'm sklearn =
  scaler_fit :: "scaler_class \<Rightarrow> table \<Rightarrow> 'm option"
  scaler_transform :: "'m \<Rightarrow> table \<Rightarrow> table option"
  imputer_fit :: "string \<Rightarrow> cell option \<Rightarrow> table \<Rightarrow> 'm option"
  imputer_transform :: "'m \<Rightarrow> table \<Rightarrow> table option"

definition sk_call :: "'a option \<Rightarrow> error + 'a" where
  "sk_call r = (case r of None \<Rightarrow> Inl SklearnError | Some v \<Rightarrow> Inr v)"

section \<open>ScalerPicker\<close>

text \<open>The attribute \<open>scaler\<close> is \<open>None\<close>, the string "skip", or a fitted scaler.\<close>

datatype 'm scaler_state = ScalerNone | ScalerSkip | ScalerFitted 'm

record 'm ScalerPicker =
  sp_cols_to_scale :: "string list"
  sp_scaler_type :: string
  sp_scaler :: "'m scaler_state"

definition ScalerPicker_init :: "string list \<Rightarrow> string \<Rightarrow> 'm ScalerPicker" where
  "ScalerPicker_init cols_to_scale scaler_type =
     \<lparr>sp_cols_to_scale = cols_to_scale, sp_scaler_type = scaler_type, sp_scaler = ScalerNone\<rparr>"

definition get_scaler_class :: "string \<Rightarrow> error + scaler_class option" where
  "get_scaler_class scaler_type =
     (if scaler_type = ''standard'' then Inr (Some StandardScaler)
      else if scaler_type = ''minmax'' then Inr (Some MinMaxScaler)
      else if scaler_type = ''robust'' then Inr (Some RobustScaler)
      else if scaler_type = ''power'' then Inr (Some PowerTransformer)
      else if scaler_type = ''skip'' then Inr None
      else Inl (ValueError (''unknown scaler type '' @ scaler_type @ '' should be standard or minmax'')))"

text \<open>
  \<open>fit\<close>: the attributes of the instance after the call, and the exception if it raised.
  \<open>cols_to_scale\<close> is assigned (line 262) before anything can raise; \<open>scaler\<close> is
  assigned once by each of the lines 265 and 266 that gets that far.
\<close>

definition ScalerPicker_fit_run ::
  "'m sklearn \<Rightarrow> 'm ScalerPicker \<Rightarrow> pyobj \<Rightarrow> 'm ScalerPicker \<times> error option" where
  "ScalerPicker_fit_run sk self X =
     (case check_fill X of
        Inl e \<Rightarrow> (self, Some e)
      | Inr T \<Rightarrow>
          (let cols = filter (\<lambda>col. col \<in> set (columns T)) (sp_cols_to_scale self);
               self1 = self\<lparr>sp_cols_to_scale := cols\<rparr>
           in case get_scaler_class (sp_scaler_type self) of
                Inl e \<Rightarrow> (self1, Some e)
              | Inr None \<Rightarrow> (self1\<lparr>sp_scaler := ScalerSkip\<rparr>, None)
              | Inr (Some cls) \<Rightarrow>
                  (case bindE (select_cols T cols) (\<lambda>sub. sk_call (scaler_fit sk cls sub)) of
                     Inl e \<Rightarrow> (self1, Some e)
                   | Inr m1 \<Rightarrow>
                       (case bindE (select_cols T cols) (\<lambda>sub. sk_call (scaler_fit sk cls sub)) of
                          Inl e \<Rightarrow> (self1\<lparr>sp_scaler := ScalerFitted m1\<rparr>, Some e)
                        | Inr m2 \<Rightarrow> (self1\<lparr>sp_scaler := ScalerFitted m2\<rparr>, None)))))"

definition ScalerPicker_fit :: "'m sklearn \<Rightarrow> 'm ScalerPicker \<Rightarrow> pyobj \<Rightarrow> error + 'm ScalerPicker" where
  "ScalerPicker_fit sk self X = returned (ScalerPicker_fit_run sk self X)"

definition ScalerPicker_transform :: "'m sklearn \<Rightarrow> 'm ScalerPicker \<Rightarrow> pyobj \<Rightarrow> error + table" where
  "ScalerPicker_transform sk self X =
     bindE (check_transform X (sp_scaler self = ScalerNone) ''CustomScaler'' True) (\<lambda>X'.
       case sp_scaler self of
         ScalerSkip \<Rightarrow> Inr X'
       | ScalerFitted m \<Rightarrow>
           bindE (select_cols X' (sp_cols_to_scale self)) (\<lambda>sub.
           bindE (sk_call (scaler_transform sk m sub)) (\<lambda>out.
             set_cols X' (sp_cols_to_scale self) out))
       | ScalerNone \<Rightarrow> Inl AttributeError)"

section \<open>SimpleImputerPicker\<close>

text \<open>The constructor argument \<open>cols_to_impute\<close>: \<open>None\<close>, a dict from tuples of column
  names to fill values, or a list of column names.\<close>

datatype cols_cfg = ColsNone | ColsDict "(string list \<times> cell) list" | ColsList "string list"

text \<open>The attribute \<open>imputer\<close>: \<open>None\<close>, a dict keyed by tuples of column names (strategy
  constant), a dict keyed by column names (strategy max), or one fitted SimpleImputer.\<close>

datatype 'm imputer_state =
    ImpNone
  | ImpTuples "(string list \<times> 'm) list"
  | ImpCols "(string \<times> 'm) list"
  | ImpOne 'm

record 'm SimpleImputerPicker =
  si_cols_to_impute :: cols_cfg
  si_strategy :: string
  si_imputer :: "'m imputer_state"

text \<open>
  Modelled from the spec: \<open>check_key_tuple_empty_intersection\<close> is imported from
  \<open>utils.py\<close>, which does not define it. The spec: the constructor validates that the
  column-name tuples used as keys are pairwise disjoint, fatal if any two keys share a
  column. The error is a validation error, which this library raises as ValueError; its
  message is not known.
\<close>

fun check_key_tuple_empty_intersection :: "(string list \<times> 'v) list \<Rightarrow> error + unit" where
  "check_key_tuple_empty_intersection [] = Inr ()"
| "check_key_tuple_empty_intersection ((k, v) # rest) =
     (if list_ex (\<lambda>p. list_ex (\<lambda>c. c \<in> set (fst p)) k) rest
      then Inl (ValueError ''keys of cols_to_impute share a column'')
      else check_key_tuple_empty_intersection rest)"

definition SimpleImputerPicker_init :: "string \<Rightarrow> cols_cfg \<Rightarrow> error + 'm SimpleImputerPicker" where
  "SimpleImputerPicker_init strategy cols_to_impute =
     bindE (case cols_to_impute of
              ColsDict d \<Rightarrow> check_key_tuple_empty_intersection d
            | _ \<Rightarrow> Inr ()) (\<lambda>_.
       Inr \<lparr>si_cols_to_impute = cols_to_impute, si_strategy = strategy, si_imputer = ImpNone\<rparr>)"

text \<open>The loop of strategy constant (lines 305 to 312).\<close>

fun fit_constant_loop ::
  "'m sklearn \<Rightarrow> table \<Rightarrow> (string list \<times> cell) list \<Rightarrow> (string list \<times> 'm) list
     \<Rightarrow> error + (string list \<times> 'm) list" where
  "fit_constant_loop sk X [] imp = Inr imp"
| "fit_constant_loop sk X ((cols, fill_value) # rest) imp =
     (let cols_to_impute = filter (\<lambda>col. col \<in> set (columns X)) cols in
      if length cols_to_impute \<noteq> 0 then
        bindE (select_cols X cols_to_impute) (\<lambda>sub.
        bindE (sk_call (imputer_fit sk ''constant'' (Some fill_value) sub)) (\<lambda>m.
          fit_constant_loop sk X rest (AList.update cols_to_impute m imp)))
      else fit_constant_loop sk X rest imp)"

text \<open>The loop of strategy max (lines 324 to 329).\<close>

fun fit_max_loop ::
  "'m sklearn \<Rightarrow> table \<Rightarrow> string list \<Rightarrow> (string \<times> 'm) list \<Rightarrow> error + (string \<times> 'm) list" where
  "fit_max_loop sk X [] imp = Inr imp"
| "fit_max_loop sk X (col # rest) imp =
     bindE (get_col X col) (\<lambda>c.
     bindE (numeric c) (\<lambda>xs.
     bindE (select_cols X [col]) (\<lambda>sub.
     bindE (sk_call (imputer_fit sk ''constant'' (Some (cell_of (s_max xs))) sub)) (\<lambda>m.
       fit_max_loop sk X rest (AList.update col m imp)))))"

text \<open>\<open>[col for col in self.cols_to_impute if col in X.columns]\<close>: iterating a dict gives
  its keys, which are tuples and never column labels.\<close>

definition present_cols :: "cols_cfg \<Rightarrow> table \<Rightarrow> string list" where
  "present_cols cfg X =
     (case cfg of
        ColsList cs \<Rightarrow> filter (\<lambda>col. col \<in> set (columns X)) cs
      | ColsDict d \<Rightarrow> []
      | ColsNone \<Rightarrow> [])"

definition SimpleImputerPicker_fit ::
  "'m sklearn \<Rightarrow> 'm SimpleImputerPicker \<Rightarrow> pyobj \<Rightarrow> error + 'm SimpleImputerPicker" where
  "SimpleImputerPicker_fit sk self X =
     bindE (check_fill X) (\<lambda>T.
       if list_ex (\<lambda>p. all_null (snd p)) T
       then Inl (ValueError ''there are columns with all missing values'')
       else
         (let cfg = (if si_cols_to_impute self = ColsNone then ColsList (columns T)
                     else si_cols_to_impute self);
              strategy = si_strategy self
          in
            if strategy = ''constant'' then
              (case cfg of
                 ColsDict d \<Rightarrow>
                   bindE (fit_constant_loop sk T d []) (\<lambda>imp.
                     Inr (self\<lparr>si_cols_to_impute := cfg, si_imputer := ImpTuples imp\<rparr>))
               | _ \<Rightarrow> Inl AttributeError)
            else if strategy \<in> set [''mean'', ''median'', ''most_frequent''] then
              bindE (select_cols T (present_cols cfg T)) (\<lambda>sub.
              bindE (sk_call (imputer_fit sk strategy None sub)) (\<lambda>m.
                Inr (self\<lparr>si_cols_to_impute := cfg, si_imputer := ImpOne m\<rparr>)))
            else if strategy = ''max'' then
              bindE (fit_max_loop sk T (present_cols cfg T) []) (\<lambda>imp.
                Inr (self\<lparr>si_cols_to_impute := cfg, si_imputer := ImpCols imp\<rparr>))
            else Inl (ValueError (''unknown strategy '' @ strategy
                        @ '' should be constant, mean, median or most_frequent''))))"

text \<open>The two loops of \<open>transform\<close> (lines 340 to 345). \<open>X[col] = frame\<close> with a single
  label takes a frame of exactly one column.\<close>

fun transform_tuples_loop ::
  "'m sklearn \<Rightarrow> (string list \<times> 'm) list \<Rightarrow> table \<Rightarrow> error + table" where
  "transform_tuples_loop sk [] X' = Inr X'"
| "transform_tuples_loop sk ((cols, imputer) # rest) X' =
     bindE (select_cols X' cols) (\<lambda>sub.
     bindE (sk_call (imputer_transform sk imputer sub)) (\<lambda>out.
     bindE (set_cols X' cols out) (\<lambda>X''.
       transform_tuples_loop sk rest X'')))"

definition set_col_frame :: "table \<Rightarrow> string \<Rightarrow> table \<Rightarrow> error + table" where
  "set_col_frame T col V =
     (case V of
        [(n, c)] \<Rightarrow> Inr (set_col T col c)
      | _ \<Rightarrow> Inl (ValueError ''Cannot set a DataFrame with multiple columns to the single column''))"

fun transform_cols_loop ::
  "'m sklearn \<Rightarrow> (string \<times> 'm) list \<Rightarrow> table \<Rightarrow> error + table" where
  "transform_cols_loop sk [] X' = Inr X'"
| "transform_cols_loop sk ((col, imputer) # rest) X' =
     bindE (select_cols X' [col]) (\<lambda>sub.
     bindE (sk_call (imputer_transform sk imputer sub)) (\<lambda>out.
     bindE (set_col_frame X' col out) (\<lambda>X''.
       transform_cols_loop sk rest X'')))"

definition imputer_falsy :: "'m imputer_state \<Rightarrow> bool" where
  "imputer_falsy imp =
     (case imp of ImpNone \<Rightarrow> True | ImpTuples d \<Rightarrow> d = [] | ImpCols d \<Rightarrow> d = [] | ImpOne m \<Rightarrow> False)"

text \<open>
  \<open>transform\<close>. A fitted instance holds the shape of imputer that belongs to its strategy;
  the other combinations arise only when an attribute is reassigned by hand, and fail in
  Python on a missing method or label.
\<close>

definition SimpleImputerPicker_transform ::
  "'m sklearn \<Rightarrow> 'm SimpleImputerPicker \<Rightarrow> pyobj \<Rightarrow> error + table" where
  "SimpleImputerPicker_transform sk self X =
     bindE (check_transform X (imputer_falsy (si_imputer self)) ''ConstantImputer'' True) (\<lambda>X'.
       if si_strategy self = ''constant'' then
         (case si_imputer self of
            ImpTuples d \<Rightarrow> transform_tuples_loop sk d X'
          | ImpCols d \<Rightarrow> transform_tuples_loop sk (map (\<lambda>(col, m). (map (\<lambda>ch. [ch]) col, m)) d) X'
          | _ \<Rightarrow> Inl AttributeError)
       else if si_strategy self = ''max'' then
         (case si_imputer self of
            ImpCols d \<Rightarrow> transform_cols_loop sk d X'
          | ImpTuples d \<Rightarrow> Inl (KeyError [])
          | _ \<Rightarrow> Inl AttributeError)
       else
         (case si_imputer self of
            ImpOne m \<Rightarrow> sk_call (imputer_transform sk m X')
          | _ \<Rightarrow> Inl AttributeError))"

section \<open>CalendarExtractor\<close>

subsection \<open>Calendar fields of a date\<close>

text \<open>The accessors \<open>.dt.year\<close>, \<open>.dt.month\<close>, \<open>.dt.day\<close>, \<open>.dt.dayofweek\<close> (Monday is 0),
  \<open>.dt.dayofyear\<close> (from 1) and \<open>.dt.isocalendar().week\<close> of the proleptic Gregorian
  calendar.\<close>

definition is_leap :: "int \<Rightarrow> bool" where
  "is_leap y = (y mod 4 = 0 \<and> (if y mod 100 = 0 then y mod 400 = 0 else True))"

definition days_before_month :: "int \<Rightarrow> int \<Rightarrow> int" where
  "days_before_month y m =
     [0, 31, 59, 90, 120, 151, 181, 212, 243, 273, 304, 334] ! nat (m - 1)
     + (if 2 < m \<and> is_leap y then 1 else 0)"

definition days_in_month :: "int \<Rightarrow> int \<Rightarrow> int" where
  "days_in_month y m =
     (if m = 2 \<and> is_leap y then 29
      else [31, 28, 31, 30, 31, 30, 31, 31, 30, 31, 30, 31] ! nat (m - 1))"

definition dayofyear :: "int \<Rightarrow> int \<Rightarrow> int \<Rightarrow> int" where
  "dayofyear y m d = days_before_month y m + d"

definition ordinal :: "int \<Rightarrow> int \<Rightarrow> int \<Rightarrow> int" where
  "ordinal y m d =
     365 * (y - 1) + (y - 1) div 4 - (y - 1) div 100 + (y - 1) div 400 + dayofyear y m d"

definition dayofweek :: "int \<Rightarrow> int \<Rightarrow> int \<Rightarrow> int" where
  "dayofweek y m d = (ordinal y m d + 6) mod 7"

definition isoweek1monday :: "int \<Rightarrow> int" where
  "isoweek1monday y =
     (let firstday = ordinal y 1 1;
          firstweekday = (firstday + 6) mod 7;
          week1monday = firstday - firstweekday
      in if 3 < firstweekday then week1monday + 7 else week1monday)"

definition weekofyear :: "int \<Rightarrow> int \<Rightarrow> int \<Rightarrow> int" where
  "weekofyear y m d =
     (let today = ordinal y m d;
          week = (today - isoweek1monday y) div 7
      in if week < 0 then (today - isoweek1monday (y - 1)) div 7 + 1
         else if 52 \<le> week \<and> isoweek1monday (y + 1) \<le> today then 1
         else week + 1)"

text \<open>A field of a datetime column: a missing date (NaT) gives a missing number.\<close>

definition dt_field :: "(int \<Rightarrow> int \<Rightarrow> int \<Rightarrow> int) \<Rightarrow> column \<Rightarrow> column" where
  "dt_field f c =
     \<lparr>dtype = Plain,
      cells = map (\<lambda>x. case x of Date y m d \<Rightarrow> Num (of_int (f y m d)) | _ \<Rightarrow> Null) (cells c)\<rparr>"

subsection \<open>Parsing dates\<close>

text \<open>
  \<open>pd.to_datetime\<close> accepts many formats. The model takes the parser of one cell as a
  parameter: \<open>None\<close> when the cell cannot be parsed (pandas raises), else a \<open>Date\<close> or,
  for a missing value, \<open>Null\<close>. \<open>iso_date\<close> is the parser for the format YYYY-MM-DD.
\<close>

type_synonym date_parser = "cell \<Rightarrow> cell option"

fun parse_cells :: "date_parser \<Rightarrow> cell list \<Rightarrow> error + cell list" where
  "parse_cells parse [] = Inr []"
| "parse_cells parse (x # xs) =
     (case parse x of
        None \<Rightarrow> Inl DateParseError
      | Some v \<Rightarrow> bindE (parse_cells parse xs) (\<lambda>vs. Inr (v # vs)))"

definition to_datetime :: "date_parser \<Rightarrow> column \<Rightarrow> error + column" where
  "to_datetime parse c = bindE (parse_cells parse (cells c)) (\<lambda>vs. Inr \<lparr>dtype = Plain, cells = vs\<rparr>)"

definition digit :: "char \<Rightarrow> int option" where
  "digit c = (if c \<in> set ''0123456789'' then Some (of_char c - 48) else None)"

fun digits :: "int \<Rightarrow> string \<Rightarrow> int option" where
  "digits acc [] = Some acc"
| "digits acc (c # cs) = (case digit c of None \<Rightarrow> None | Some v \<Rightarrow> digits (10 * acc + v) cs)"

fun iso_date :: date_parser where
  "iso_date Null = Some Null"
| "iso_date (Date y m d) = Some (Date y m d)"
| "iso_date (Num x) = None"
| "iso_date (Str s) =
     (if length s = 10 \<and> s ! 4 = CHR ''-'' \<and> s ! 7 = CHR ''-'' then
        (case (digits 0 (take 4 s), digits 0 (take 2 (drop 5 s)), digits 0 (drop 8 s)) of
           (Some y, Some m, Some d) \<Rightarrow>
             if 1 \<le> y \<and> 1 \<le> m \<and> m \<le> 12 \<and> 1 \<le> d \<and> d \<le> days_in_month y m
             then Some (Date y m d) else None
         | _ \<Rightarrow> None)
      else None)"

subsection \<open>The transformer\<close>

record CalendarExtractor =
  ce_date_col :: string
  ce_calendar_level :: "int option"

definition CalendarExtractor_init :: "string \<Rightarrow> int option \<Rightarrow> CalendarExtractor" where
  "CalendarExtractor_init date_col calendar_level =
     \<lparr>ce_date_col = date_col, ce_calendar_level = calendar_level\<rparr>"

definition CalendarExtractor_fit :: "CalendarExtractor \<Rightarrow> pyobj \<Rightarrow> error + CalendarExtractor" where
  "CalendarExtractor_fit self X = Inr self"

text \<open>The slice \<open>xs[:k]\<close>: a negative \<open>k\<close> counts from the end.\<close>

definition slice_to :: "'a list \<Rightarrow> int \<Rightarrow> 'a list" where
  "slice_to xs k = (if 0 \<le> k then take (nat k) xs else take (nat (int (length xs) + k)) xs)"

text \<open>
  The loop over \<open>what_to_generate\<close> (lines 40 to 65). The branch of \<open>weekofyear\<close> computes
  and names its column and leaves \<open>cols_to_add\<close> as it is.
\<close>

fun generate :: "column \<Rightarrow> string list \<Rightarrow> (string \<times> column) list \<Rightarrow> error + (string \<times> column) list" where
  "generate dc [] cols_to_add = Inr cols_to_add"
| "generate dc (what # rest) cols_to_add =
     (if what = ''year'' then
        (let year_col = (''year'', dt_field (\<lambda>y m d. y) dc)
         in generate dc rest (cols_to_add @ [year_col]))
      else if what = ''month'' then
        (let month_col = (''month'', dt_field (\<lambda>y m d. m) dc)
         in generate dc rest (cols_to_add @ [month_col]))
      else if what = ''day'' then
        (let day_col = (''day'', dt_field (\<lambda>y m d. d) dc)
         in generate dc rest (cols_to_add @ [day_col]))
      else if what = ''dayofweek'' then
        (let dayofweek_col = (''dayofweek'', dt_field dayofweek dc)
         in generate dc rest (cols_to_add @ [dayofweek_col]))
      else if what = ''dayofyear'' then
        (let dayofyear_cl = (''dayofyear'', dt_field dayofyear dc)
         in generate dc rest (cols_to_add @ [dayofyear_cl]))
      else if what = ''weekofyear'' then
        (let weekofyear_col = (''weekofyear'', dt_field weekofyear dc)
         in generate dc rest cols_to_add)
      else Inl (ValueError (''Unknown parameter '' @ what @ '' in what_to_generate'')))"

definition what_to_generate_all :: "string list" where
  "what_to_generate_all = [''year'', ''month'', ''day'', ''dayofweek'', ''dayofyear'', ''weekofyear'']"

definition CalendarExtractor_transform ::
  "date_parser \<Rightarrow> CalendarExtractor \<Rightarrow> pyobj \<Rightarrow> error + table" where
  "CalendarExtractor_transform parse self X =
     bindE (check_transform X True [] False) (\<lambda>X0.
     bindE (get_col X0 (ce_date_col self)) (\<lambda>c.
     bindE (to_datetime parse c) (\<lambda>dc.
       let X1 = set_col X0 (ce_date_col self) dc;
           what_to_generate =
             (case ce_calendar_level self of
                None \<Rightarrow> what_to_generate_all
              | Some k \<Rightarrow> slice_to what_to_generate_all k)
       in bindE (generate dc what_to_generate []) (\<lambda>cols_to_add.
          bindE (drop_cols X1 [ce_date_col self]) (\<lambda>X2.
            Inr (X2 @ cols_to_add))))))"

section \<open>The transforms on a store of frames\<close>

text \<open>
  Whether \<open>transform\<close> changes the frame it is given depends on which frame object each
  statement writes to. Here frames live in a store, a list of tables addressed by
  position, and \<open>transform\<close> takes and returns references. A pandas call that returns a
  new frame (\<open>X.copy()\<close>, \<open>X.drop(labels, axis=1)\<close>, \<open>X[labels]\<close>, \<open>pd.concat\<close>, the
  \<open>transform\<close> of a scikit-learn estimator) allocates; an item assignment \<open>X_[...] = ...\<close>
  and \<open>drop(..., inplace=True)\<close> write to the frame their target names. Series and
  sub-frames used within one statement are values.
\<close>

type_synonym ref = nat
type_synonym store = "table list"

definition alloc :: "store \<Rightarrow> table \<Rightarrow> store \<times> ref" where
  "alloc h t = (h @ [t], length h)"

definition copy :: "store \<Rightarrow> ref \<Rightarrow> store \<times> ref" where
  "copy h r = alloc h (h ! r)"

definition CalendarExtractor_transform_st ::
  "date_parser \<Rightarrow> CalendarExtractor \<Rightarrow> store \<Rightarrow> ref \<Rightarrow> error + store \<times> ref" where
  "CalendarExtractor_transform_st parse self h X =
     bindE (check_transform (DataFrame (h ! X)) True [] False) (\<lambda>_.
       case copy h X of (h1, X') \<Rightarrow>
         bindE (get_col (h1 ! X') (ce_date_col self)) (\<lambda>c.
         bindE (to_datetime parse c) (\<lambda>dc.
           let h2 = h1[X' := set_col (h1 ! X') (ce_date_col self) dc];
               what_to_generate =
                 (case ce_calendar_level self of
                    None \<Rightarrow> what_to_generate_all
                  | Some k \<Rightarrow> slice_to what_to_generate_all k)
           in bindE (generate dc what_to_generate []) (\<lambda>cols_to_add.
              bindE (drop_cols (h2 ! X') [ce_date_col self]) (\<lambda>dropped.
                let h3 = h2[X' := dropped]
                in Inr (alloc h3 (h3 ! X' @ cols_to_add)))))))"

definition NoInfoFeatureRemover_transform_st ::
  "NoInfoFeatureRemover \<Rightarrow> store \<Rightarrow> ref \<Rightarrow> error + store \<times> ref" where
  "NoInfoFeatureRemover_transform_st self h X =
     bindE (check_transform (DataFrame (h ! X)) (falsy (nf_cols_to_remove self))
              ''NoInfoFeatureRemover'' True) (\<lambda>_.
     bindE (drop_cols (h ! X) (case nf_cols_to_remove self of None \<Rightarrow> [] | Some cs \<Rightarrow> cs)) (\<lambda>t.
       Inr (alloc h t)))"

fun OutlierRemover_clip_loop_st ::
  "thresholds \<Rightarrow> string list \<Rightarrow> store \<Rightarrow> ref \<Rightarrow> error + store" where
  "OutlierRemover_clip_loop_st th [] h X' = Inr h"
| "OutlierRemover_clip_loop_st th (col # cols) h X' =
     bindE (get_col (h ! X') col) (\<lambda>c.
     bindE (dict_get th col) (\<lambda>(lower, upper).
     bindE (clip lower upper c) (\<lambda>c'.
       OutlierRemover_clip_loop_st th cols (h[X' := set_col (h ! X') col c']) X')))"

definition OutlierRemover_transform_st ::
  "OutlierRemover \<Rightarrow> store \<Rightarrow> ref \<Rightarrow> error + store \<times> ref" where
  "OutlierRemover_transform_st self h X =
     bindE (check_transform (DataFrame (h ! X)) (falsy (or_col_thresholds self))
              ''OutlierRemover'' True) (\<lambda>_.
       case copy h X of (h1, X') \<Rightarrow>
         bindE (OutlierRemover_clip_loop_st
                  (case or_col_thresholds self of None \<Rightarrow> [] | Some th \<Rightarrow> th)
                  (or_cols_to_transform self) h1 X') (\<lambda>h2.
           Inr (h2, X')))"

fun WithAnotherColumnImputer_loop_st ::
  "(string \<times> string) list \<Rightarrow> store \<Rightarrow> ref \<Rightarrow> error + store" where
  "WithAnotherColumnImputer_loop_st [] h X' = Inr h"
| "WithAnotherColumnImputer_loop_st ((col, src) # rest) h X' =
     bindE (get_col (h ! X') col) (\<lambda>a.
     bindE (get_col (h ! X') src) (\<lambda>b.
     bindE (fillna a b) (\<lambda>filled.
       WithAnotherColumnImputer_loop_st rest (h[X' := set_col (h ! X') col filled]) X')))"

definition WithAnotherColumnImputer_transform_st ::
  "WithAnotherColumnImputer \<Rightarrow> store \<Rightarrow> ref \<Rightarrow> error + store \<times> ref" where
  "WithAnotherColumnImputer_transform_st self h X =
     bindE (check_transform (DataFrame (h ! X)) (wa_cols_to_impute self = [])
              ''WithAnotherColumnImputer'' True) (\<lambda>_.
       case copy h X of (h1, X') \<Rightarrow>
         bindE (WithAnotherColumnImputer_loop_st (wa_cols_to_impute self) h1 X') (\<lambda>h2.
           Inr (h2, X')))"

definition CatCaster_transform_st :: "CatCaster \<Rightarrow> store \<Rightarrow> ref \<Rightarrow> error + store \<times> ref" where
  "CatCaster_transform_st self h X =
     bindE (check_transform (DataFrame (h ! X)) True [] False) (\<lambda>_.
       case copy h X of (h1, X') \<Rightarrow>
         bindE (select_cols (h1 ! X) (cc_cols_to_cast self)) (\<lambda>sub.
         bindE (set_cols (h1 ! X') (cc_cols_to_cast self) (astype_category sub)) (\<lambda>t.
           Inr (h1[X' := t], X'))))"

definition FeaturesOrder_transform_st :: "FeaturesOrder \<Rightarrow> store \<Rightarrow> ref \<Rightarrow> error + store \<times> ref" where
  "FeaturesOrder_transform_st self h X =
     bindE (check_transform (DataFrame (h ! X)) (falsy (fo_features_order' self))
              ''OrderFeatures'' True) (\<lambda>_.
     bindE (select_cols (h ! X) (case fo_features_order' self of None \<Rightarrow> [] | Some cs \<Rightarrow> cs)) (\<lambda>t.
       Inr (alloc h t)))"

definition ScalerPicker_transform_st ::
  "'m sklearn \<Rightarrow> 'm ScalerPicker \<Rightarrow> store \<Rightarrow> ref \<Rightarrow> error + store \<times> ref" where
  "ScalerPicker_transform_st sk self h X =
     bindE (check_transform (DataFrame (h ! X)) (sp_scaler self = ScalerNone)
              ''CustomScaler'' True) (\<lambda>_.
       case copy h X of (h1, X') \<Rightarrow>
         (case sp_scaler self of
            ScalerSkip \<Rightarrow> Inr (h1, X')
          | ScalerFitted m \<Rightarrow>
              bindE (select_cols (h1 ! X') (sp_cols_to_scale self)) (\<lambda>sub.
              bindE (sk_call (scaler_transform sk m sub)) (\<lambda>out.
              bindE (set_cols (h1 ! X') (sp_cols_to_scale self) out) (\<lambda>t.
                Inr (h1[X' := t], X'))))
          | ScalerNone \<Rightarrow> Inl AttributeError))"

fun transform_tuples_loop_st ::
  "'m sklearn \<Rightarrow> (string list \<times> 'm) list \<Rightarrow> store \<Rightarrow> ref \<Rightarrow> error + store" where
  "transform_tuples_loop_st sk [] h X' = Inr h"
| "transform_tuples_loop_st sk ((cols, imputer) # rest) h X' =
     bindE (select_cols (h ! X') cols) (\<lambda>sub.
     bindE (sk_call (imputer_transform sk imputer sub)) (\<lambda>out.
     bindE (set_cols (h ! X') cols out) (\<lambda>t.
       transform_tuples_loop_st sk rest (h[X' := t]) X')))"

fun transform_cols_loop_st ::
  "'m sklearn \<Rightarrow> (string \<times> 'm) list \<Rightarrow> store \<Rightarrow> ref \<Rightarrow> error + store" where
  "transform_cols_loop_st sk [] h X' = Inr h"
| "transform_cols_loop_st sk ((col, imputer) # rest) h X' =
     bindE (select_cols (h ! X') [col]) (\<lambda>sub.
     bindE (sk_call (imputer_transform sk imputer sub)) (\<lambda>out.
     bindE (set_col_frame (h ! X') col out) (\<lambda>t.
       transform_cols_loop_st sk rest (h[X' := t]) X')))"

definition SimpleImputerPicker_transform_st ::
  "'m sklearn \<Rightarrow> 'm SimpleImputerPicker \<Rightarrow> store \<Rightarrow> ref \<Rightarrow> error + store \<times> ref" where
  "SimpleImputerPicker_transform_st sk self h X =
     bindE (check_transform (DataFrame (h ! X)) (imputer_falsy (si_imputer self))
              ''ConstantImputer'' True) (\<lambda>_.
       case copy h X of (h1, X') \<Rightarrow>
         if si_strategy self = ''constant'' then
           (case si_imputer self of
              ImpTuples d \<Rightarrow>
                bindE (transform_tuples_loop_st sk d h1 X') (\<lambda>h2. Inr (h2, X'))
            | ImpCols d \<Rightarrow>
                bindE (transform_tuples_loop_st sk
                         (map (\<lambda>(col, m). (map (\<lambda>ch. [ch]) col, m)) d) h1 X') (\<lambda>h2. Inr (h2, X'))
            | _ \<Rightarrow> Inl AttributeError)
         else if si_strategy self = ''max'' then
           (case si_imputer self of
              ImpCols d \<Rightarrow> bindE (transform_cols_loop_st sk d h1 X') (\<lambda>h2. Inr (h2, X'))
            | ImpTuples d \<Rightarrow> Inl (KeyError [])
            | _ \<Rightarrow> Inl AttributeError)
         else
           (case si_imputer self of
              ImpOne m \<Rightarrow>
                bindE (sk_call (imputer_transform sk m (h1 ! X'))) (\<lambda>out. Inr (alloc h1 out))
            | _ \<Rightarrow> Inl AttributeError))"

text \<open>The eight components, and \<open>transform\<close> by component.\<close>

datatype 'm component =
    CalendarExtractor_of CalendarExtractor
  | NoInfoFeatureRemover_of NoInfoFeatureRemover
  | OutlierRemover_of OutlierRemover
  | WithAnotherColumnImputer_of WithAnotherColumnImputer
  | CatCaster_of CatCaster
  | FeaturesOrder_of FeaturesOrder
  | ScalerPicker_of "'m ScalerPicker"
  | SimpleImputerPicker_of "'m SimpleImputerPicker"

fun transform :: "'m sklearn \<Rightarrow> date_parser \<Rightarrow> 'm component \<Rightarrow> pyobj \<Rightarrow> error + table" where
  "transform sk parse (CalendarExtractor_of self) X = CalendarExtractor_transform parse self X"
| "transform sk parse (NoInfoFeatureRemover_of self) X = NoInfoFeatureRemover_transform self X"
| "transform sk parse (OutlierRemover_of self) X = OutlierRemover_transform self X"
| "transform sk parse (WithAnotherColumnImputer_of self) X = WithAnotherColumnImputer_transform self X"
| "transform sk parse (CatCaster_of self) X = CatCaster_transform self X"
| "transform sk parse (FeaturesOrder_of self) X = FeaturesOrder_transform self X"
| "transform sk parse (ScalerPicker_of self) X = ScalerPicker_transform sk self X"
| "transform sk parse (SimpleImputerPicker_of self) X = SimpleImputerPicker_transform sk self X"

fun transform_st ::
  "'m sklearn \<Rightarrow> date_parser \<Rightarrow> 'm component \<Rightarrow> store \<Rightarrow> ref \<Rightarrow> error + store \<times> ref" where
  "transform_st sk parse (CalendarExtractor_of self) h X = CalendarExtractor_transform_st parse self h X"
| "transform_st sk parse (NoInfoFeatureRemover_of self) h X = NoInfoFeatureRemover_transform_st self h X"
| "transform_st sk parse (OutlierRemover_of self) h X = OutlierRemover_transform_st self h X"
| "transform_st sk parse (WithAnotherColumnImputer_of self) h X = WithAnotherColumnImputer_transform_st self h X"
| "transform_st sk parse (CatCaster_of self) h X = CatCaster_transform_st self h X"
| "transform_st sk parse (FeaturesOrder_of self) h X = FeaturesOrder_transform_st self h X"
| "transform_st sk parse (ScalerPicker_of self) h X = ScalerPicker_transform_st sk self h X"
| "transform_st sk parse (SimpleImputerPicker_of self) h X = SimpleImputerPicker_transform_st sk self h X"

section \<open>Instances for the examples\<close>

text \<open>
  An instance of the scikit-learn parameter: the SimpleImputer of strategy constant, whose
  fitted state is its fill value and whose transform fills every null cell with it. The
  other estimators are not given by this instance.
\<close>

definition sk_constant :: "cell sklearn" where
  "sk_constant =
     \<lparr>scaler_fit = (\<lambda>cls T. None),
      scaler_transform = (\<lambda>m T. None),
      imputer_fit = (\<lambda>strategy fill_value T.
         if strategy = ''constant'' then fill_value else None),
      imputer_transform = (\<lambda>m T.
         Some (map (\<lambda>(n, c). (n, c\<lparr>cells := map (\<lambda>x. if x = Null then m else x) (cells c)\<rparr>)) T))\<rparr>"

definition num_col :: "real list \<Rightarrow> column" where
  "num_col xs = \<lparr>dtype = Plain, cells = map Num xs\<rparr>"

text \<open>An OutlierRemover fitted with method skip on the column \<open>[0, 10]\<close>.\<close>

definition skip_fitted :: OutlierRemover where
  "skip_fitted = \<lparr>or_cols_to_transform = [''col_1''], or_method = ''skip'',
                   or_col_thresholds = Some [(''col_1'', (Some 0, Some 10))]\<rparr>"

text \<open>Whether a result is the raise of a NotFittedError, of a ValueError.\<close>

definition is_not_fitted :: "error + 'a \<Rightarrow> bool" where
  "is_not_fitted r = (case r of Inl (NotFittedError msg) \<Rightarrow> True | _ \<Rightarrow> False)"

definition is_value_error :: "error + 'a \<Rightarrow> bool" where
  "is_value_error r = (case r of Inl (ValueError msg) \<Rightarrow> True | _ \<Rightarrow> False)"

text \<open>The table of the tests of CatCaster.\<close>

definition cat_df :: table where
  "cat_df =
     [(''col_1'', num_col [1, 2, 3]),
      (''col_2'', \<lparr>dtype = Plain, cells = [Str ''a'', Str ''b'', Str ''c'']\<rparr>),
      (''col_3'', num_col [4, 5, 6])]"

text \<open>The table of the tests of CalendarExtractor.\<close>

definition date_df :: table where
  "date_df = [(''date'', \<lparr>dtype = Plain, cells = [Str ''2022-01-01'', Str ''2023-02-28'']\<rparr>)]"

text \<open>A table whose column \<open>b\<close> is entirely null and whose column \<open>a\<close> is not.\<close>

definition null_b_df :: table where
  "null_b_df =
     [(''a'', \<lparr>dtype = Plain, cells = [Num 1, Null]\<rparr>),
      (''b'', \<lparr>dtype = Plain, cells = [Null, Null]\<rparr>)]"

text \<open>An OutlierRemover as constructed for the column \<open>col_1\<close>, by method.\<close>

definition remover :: "string \<Rightarrow> OutlierRemover" where
  "remover method =
     \<lparr>or_cols_to_transform = [''col_1''], or_method = method, or_col_thresholds = None\<rparr>"




text \<open>
  A second instance of the scikit-learn parameter: the MinMaxScaler, whose fitted state is
  the minimum and maximum of each column it was fitted on, in column order. The other
  estimators are not given by this instance.
\<close>

definition minmax_of :: "column \<Rightarrow> (real \<times> real) option" where
  "minmax_of c =
     (case numeric c of
        Inl e \<Rightarrow> None
      | Inr xs \<Rightarrow> (case s_min xs of None \<Rightarrow> None
                   | Some a \<Rightarrow> (case s_max xs of None \<Rightarrow> None | Some b \<Rightarrow> Some (a, b))))"

fun minmax_fit :: "table \<Rightarrow> (real \<times> real) list option" where
  "minmax_fit [] = Some []"
| "minmax_fit ((n, c) # T) =
     (case minmax_of c of
        None \<Rightarrow> None
      | Some ab \<Rightarrow> (case minmax_fit T of None \<Rightarrow> None | Some m \<Rightarrow> Some (ab # m)))"

definition minmax_scale :: "real \<times> real \<Rightarrow> cell \<Rightarrow> cell" where
  "minmax_scale ab x =
     (case x of
        Num v \<Rightarrow> Num ((v - fst ab) / (if snd ab = fst ab then 1 else snd ab - fst ab))
      | _ \<Rightarrow> x)"

definition sk_minmax :: "(real \<times> real) list sklearn" where
  "sk_minmax =
     \<lparr>scaler_fit = (\<lambda>cls T. if cls = MinMaxScaler then minmax_fit T else None),
      scaler_transform = (\<lambda>m T.
         if length m = length T
         then Some (map (\<lambda>(ab, (n, c)). (n, c\<lparr>cells := map (minmax_scale ab) (cells c)\<rparr>)) (zip m T))
         else None),
      imputer_fit = (\<lambda>strategy fill_value T. None),
      imputer_transform = (\<lambda>m T. None)\<rparr>"

text \<open>Two tables, the first without the column \<open>col_2\<close>.\<close>

definition first_df :: table where
  "first_df = [(''col_1'', num_col [1, 2])]"

definition second_df :: table where
  "second_df = [(''col_1'', num_col [1, 2]), (''col_2'', num_col [10, 20])]"

text \<open>An OutlierRemover and a ScalerPicker configured for both columns, as constructed.\<close>

definition both_remover :: OutlierRemover where
  "both_remover = \<lparr>or_cols_to_transform = [''col_1'', ''col_2''], or_method = ''iqr'',
                    or_col_thresholds = None\<rparr>"

definition both_scaler :: "(real \<times> real) list ScalerPicker" where
  "both_scaler = ScalerPicker_init [''col_1'', ''col_2''] ''minmax''"

text \<open>The CatCaster of the tests, and the first column of their table alone.\<close>

definition test_caster :: CatCaster where
  "test_caster = CatCaster_init [''col_2'', ''col_1'', ''col_0'']"

definition col_1_df :: table where
  "col_1_df = [(''col_1'', num_col [1, 2, 3])]"

section \<open>Construction of an OutlierRemover\<close>

text \<open>
  C5, as stated: construction with an empty list of columns raises. The constructor
  accepts the empty list.
\<close>

theorem OutlierRemover_init_empty_list_accepted:
  "OutlierRemover_init (Some []) ''iqr'' =
     Inr \<lparr>or_cols_to_transform = [], or_method = ''iqr'', or_col_thresholds = None\<rparr>"
  by (simp add: OutlierRemover_init_def)

text \<open>
  C5, amended: the constructor raises its validation error exactly when the column list
  is \<open>None\<close>; every list, the empty one included, is accepted and stored as given.
\<close>

theorem OutlierRemover_init_raises_iff_None:
  "(OutlierRemover_init cols m = Inl (ValueError ''cols_to_transform parameter is should be filled'')
      \<longleftrightarrow> cols = None)
   \<and> (\<forall>cs. OutlierRemover_init (Some cs) m =
          Inr \<lparr>or_cols_to_transform = cs, or_method = m, or_col_thresholds = None\<rparr>)"
  by (cases cols) (simp_all add: OutlierRemover_init_def)

section \<open>The store-level transforms agree with the value-level ones\<close>

lemma bindE_Inr_iff: "bindE m f = Inr y \<longleftrightarrow> (\<exists>x. m = Inr x \<and> f x = Inr y)"
  by (cases m) (simp_all add: bindE_def)

lemma bindE_Inl [simp]: "bindE (Inl e) f = Inl e"
  by (simp add: bindE_def)

lemma bindE_Inr [simp]: "bindE (Inr x) f = f x"
  by (simp add: bindE_def)

lemma bindE_assoc: "bindE (bindE m f) g = bindE m (\<lambda>x. bindE (f x) g)"
  by (cases m) simp_all

lemma bindE_cong: "m = m' \<Longrightarrow> (\<And>x. m' = Inr x \<Longrightarrow> f x = g x) \<Longrightarrow> bindE m f = bindE m' g"
  by (cases m') simp_all

lemma check_transform_DataFrame:
  "check_transform (DataFrame T) fl name chk =
     (if chk \<and> fl then Inl (NotFittedError (name @ '' transformer was not fitted'')) else Inr T)"
  by (simp add: check_transform_def check_fill_def)

lemma NF_st_eq:
  "NoInfoFeatureRemover_transform_st self h X =
     bindE (NoInfoFeatureRemover_transform self (DataFrame (h ! X))) (\<lambda>t. Inr (h @ [t], length h))"
  by (simp add: NoInfoFeatureRemover_transform_st_def NoInfoFeatureRemover_transform_def alloc_def
        check_transform_DataFrame bindE_assoc)

lemma FO_st_eq:
  "FeaturesOrder_transform_st self h X =
     bindE (FeaturesOrder_transform self (DataFrame (h ! X))) (\<lambda>t. Inr (h @ [t], length h))"
  by (simp add: FeaturesOrder_transform_st_def FeaturesOrder_transform_def alloc_def
        check_transform_DataFrame bindE_assoc)

lemma CC_st_eq:
  "X < length h \<Longrightarrow> CatCaster_transform_st self h X =
     bindE (CatCaster_transform self (DataFrame (h ! X))) (\<lambda>t. Inr (h @ [t], length h))"
  by (simp add: CatCaster_transform_st_def CatCaster_transform_def alloc_def copy_def
        check_transform_DataFrame bindE_assoc nth_append)


lemma clip_loop_st_eq:
  "X' < length h \<Longrightarrow>
   OutlierRemover_clip_loop_st th cols h X' =
     bindE (OutlierRemover_clip_loop th cols (h ! X')) (\<lambda>t. Inr (h[X' := t]))"
proof (induction cols arbitrary: h)
  case Nil
  then show ?case by simp
next
  case (Cons col cols)
  then show ?case
    by (simp add: bindE_assoc split_def cong: bindE_cong)
qed

lemma wa_loop_st_eq:
  "X' < length h \<Longrightarrow>
   WithAnotherColumnImputer_loop_st d h X' =
     bindE (WithAnotherColumnImputer_loop d (h ! X')) (\<lambda>t. Inr (h[X' := t]))"
proof (induction d arbitrary: h)
  case Nil
  then show ?case by simp
next
  case (Cons p d)
  then show ?case
    by (cases p) (simp add: bindE_assoc cong: bindE_cong)
qed

lemma tuples_loop_st_eq:
  "X' < length h \<Longrightarrow>
   transform_tuples_loop_st sk d h X' =
     bindE (transform_tuples_loop sk d (h ! X')) (\<lambda>t. Inr (h[X' := t]))"
proof (induction d arbitrary: h)
  case Nil
  then show ?case by simp
next
  case (Cons p d)
  then show ?case
    by (cases p) (simp add: bindE_assoc cong: bindE_cong)
qed

lemma cols_loop_st_eq:
  "X' < length h \<Longrightarrow>
   transform_cols_loop_st sk d h X' =
     bindE (transform_cols_loop sk d (h ! X')) (\<lambda>t. Inr (h[X' := t]))"
proof (induction d arbitrary: h)
  case Nil
  then show ?case by simp
next
  case (Cons p d)
  then show ?case
    by (cases p) (simp add: bindE_assoc cong: bindE_cong)
qed

lemma OR_st_eq:
  "X < length h \<Longrightarrow> OutlierRemover_transform_st self h X =
     bindE (OutlierRemover_transform self (DataFrame (h ! X))) (\<lambda>t. Inr (h @ [t], length h))"
  by (simp add: OutlierRemover_transform_st_def OutlierRemover_transform_def alloc_def copy_def
        check_transform_DataFrame bindE_assoc nth_append clip_loop_st_eq)

lemma WA_st_eq:
  "X < length h \<Longrightarrow> WithAnotherColumnImputer_transform_st self h X =
     bindE (WithAnotherColumnImputer_transform self (DataFrame (h ! X))) (\<lambda>t. Inr (h @ [t], length h))"
  by (simp add: WithAnotherColumnImputer_transform_st_def WithAnotherColumnImputer_transform_def alloc_def copy_def
        check_transform_DataFrame bindE_assoc nth_append wa_loop_st_eq)

lemma SP_st_eq:
  "X < length h \<Longrightarrow> ScalerPicker_transform_st sk self h X =
     bindE (ScalerPicker_transform sk self (DataFrame (h ! X))) (\<lambda>t. Inr (h @ [t], length h))"
  by (cases "sp_scaler self")
     (simp_all add: ScalerPicker_transform_st_def ScalerPicker_transform_def alloc_def copy_def
        check_transform_DataFrame bindE_assoc nth_append)

lemma frame_of_eq:
  assumes "st = bindE p (\<lambda>t. Inr (h @ [t], length h))" "st = Inr (h', Y)"
  shows "take (length h) h' = h \<and> length h \<le> Y \<and> Y < length h' \<and> p = Inr (h' ! Y)"
  using assms by (cases p) auto

lemma SI_st_frame:
  assumes "X < length h" "SimpleImputerPicker_transform_st sk self h X = Inr (h', Y)"
  shows "take (length h) h' = h \<and> length h \<le> Y \<and> Y < length h'
         \<and> SimpleImputerPicker_transform sk self (DataFrame (h ! X)) = Inr (h' ! Y)"
proof (cases "si_strategy self = ''constant'' \<or> si_strategy self = ''max''")
  case True
  with assms(1) have "SimpleImputerPicker_transform_st sk self h X =
     bindE (SimpleImputerPicker_transform sk self (DataFrame (h ! X))) (\<lambda>t. Inr (h @ [t], length h))"
    by (cases "si_imputer self")
       (auto simp: SimpleImputerPicker_transform_st_def SimpleImputerPicker_transform_def alloc_def
          copy_def check_transform_DataFrame bindE_assoc nth_append tuples_loop_st_eq cols_loop_st_eq)
  from frame_of_eq [OF this assms(2)] show ?thesis .
next
  case False
  with assms show ?thesis
    by (cases "si_imputer self")
       (auto simp: SimpleImputerPicker_transform_st_def SimpleImputerPicker_transform_def alloc_def
          copy_def check_transform_DataFrame nth_append bindE_Inr_iff split: if_splits)
qed

lemma CE_st_frame:
  assumes "X < length h" "CalendarExtractor_transform_st parse self h X = Inr (h', Y)"
  shows "take (length h) h' = h \<and> length h \<le> Y \<and> Y < length h'
         \<and> CalendarExtractor_transform parse self (DataFrame (h ! X)) = Inr (h' ! Y)"
proof -
  from assms(2) obtain c dc cols_to_add dropped
    where c: "get_col (h ! X) (ce_date_col self) = Inr c"
      and dc: "to_datetime parse c = Inr dc"
      and g: "generate dc (case ce_calendar_level self of None \<Rightarrow> what_to_generate_all
                | Some k \<Rightarrow> slice_to what_to_generate_all k) [] = Inr cols_to_add"
      and d: "drop_cols (set_col (h ! X) (ce_date_col self) dc) [ce_date_col self] = Inr dropped"
      and r: "h' = h @ [dropped, dropped @ cols_to_add]" "Y = Suc (length h)"
    by (auto simp: CalendarExtractor_transform_st_def copy_def alloc_def check_transform_DataFrame
          bindE_Inr_iff nth_append Let_def)
  show ?thesis
    using assms(1) c dc g d r
    by (simp add: CalendarExtractor_transform_def check_transform_DataFrame nth_append Let_def)
qed

lemma transform_st_agrees:
  assumes "X < length h" "transform_st sk parse c h X = Inr (h', Y)"
  shows "take (length h) h' = h \<and> length h \<le> Y \<and> Y < length h'
         \<and> transform sk parse c (DataFrame (h ! X)) = Inr (h' ! Y)"
proof (cases c)
  case (CalendarExtractor_of self)
  with assms show ?thesis by (simp add: CE_st_frame)
next
  case (NoInfoFeatureRemover_of self)
  with assms frame_of_eq [OF NF_st_eq] show ?thesis by simp
next
  case (OutlierRemover_of self)
  with assms frame_of_eq [OF OR_st_eq] show ?thesis by simp
next
  case (WithAnotherColumnImputer_of self)
  with assms frame_of_eq [OF WA_st_eq] show ?thesis by simp
next
  case (CatCaster_of self)
  with assms frame_of_eq [OF CC_st_eq] show ?thesis by simp
next
  case (FeaturesOrder_of self)
  with assms frame_of_eq [OF FO_st_eq] show ?thesis by simp
next
  case (ScalerPicker_of self)
  with assms frame_of_eq [OF SP_st_eq] show ?thesis by simp
next
  case (SimpleImputerPicker_of self)
  with assms show ?thesis by (simp add: SI_st_frame)
qed

section \<open>Transform leaves its input as it was\<close>

text \<open>
  C8: for every component and every instance, when \<open>transform\<close> returns, the frame it
  was given holds the same table as before the call (the same columns in the same order
  with the same cells); so does every other frame that existed before the call, and the
  frame returned is a new one.
\<close>

theorem transform_does_not_mutate_input:
  assumes "X < length h" and "transform_st sk parse c h X = Inr (h', Y)"
  shows "h' ! X = h ! X \<and> take (length h) h' = h \<and> length h \<le> Y \<and> Y < length h'"
proof -
  from transform_st_agrees [OF assms]
  have *: "take (length h) h' = h" "length h \<le> Y" "Y < length h'" by simp_all
  from *(1) have "take (length h) h' ! X = h ! X" by simp
  with assms(1) have "h' ! X = h ! X" by simp
  with * show ?thesis by simp
qed

lemma skip_fitted_transform_st:
  "transform_st sk_constant iso_date (OutlierRemover_of skip_fitted) [[(''col_1'', num_col [-5, 20])]] 0
     = Inr ([[(''col_1'', num_col [-5, 20])], [(''col_1'', num_col [0, 10])]], 1)"
  by (simp add: skip_fitted_def OutlierRemover_transform_st_def check_transform_DataFrame falsy_def
        copy_def alloc_def get_col_def repeated_def dict_get_def clip_def numeric_def num_col_def
        nan2_def clip_val_def set_col_def)

theorem transform_does_not_mutate_input_witness:
  "0 < length [[(''col_1'', num_col [-5, 20])]]
   \<and> transform_st sk_constant iso_date (OutlierRemover_of skip_fitted) [[(''col_1'', num_col [-5, 20])]] 0
       = Inr ([[(''col_1'', num_col [-5, 20])], [(''col_1'', num_col [0, 10])]], 1)
   \<and> [[(''col_1'', num_col [-5, 20])], [(''col_1'', num_col [0, 10])]] ! 0
       = [(''col_1'', num_col [-5, 20])]"
  using transform_does_not_mutate_input [OF _ skip_fitted_transform_st] skip_fitted_transform_st
  by simp

section \<open>Transform before fit\<close>

lemma not_fitted_bindE:
  "\<not> is_not_fitted m \<Longrightarrow> (\<And>x. \<not> is_not_fitted (f x)) \<Longrightarrow> \<not> is_not_fitted (bindE m f)"
  by (cases m) (simp_all add: is_not_fitted_def)

lemma not_fitted_simps [simp]:
  "\<not> is_not_fitted (Inr x)"
  "\<not> is_not_fitted (Inl (ValueError msg))"
  "\<not> is_not_fitted (Inl (KeyError k))"
  "\<not> is_not_fitted (Inl DateParseError)"
  "\<not> is_not_fitted (Inl Unmodelled)"
  "\<not> is_not_fitted (check_transform X fl name False)"
  by (cases X; simp add: is_not_fitted_def check_transform_def check_fill_def)+

lemma not_fitted_get_col [simp]: "\<not> is_not_fitted (get_col T c)"
  by (simp add: get_col_def split: option.splits)

lemma not_fitted_select_cols [simp]: "\<not> is_not_fitted (select_cols T cs)"
  by (induction cs) (simp_all add: not_fitted_bindE)

lemma not_fitted_drop_cols [simp]: "\<not> is_not_fitted (drop_cols T cs)"
  by (simp add: drop_cols_def split: list.splits)

lemma not_fitted_set_cols [simp]: "\<not> is_not_fitted (set_cols T ks V)"
  by (simp add: set_cols_def)

lemma not_fitted_parse_cells [simp]: "\<not> is_not_fitted (parse_cells parse xs)"
  by (induction xs) (simp_all add: not_fitted_bindE split: option.splits)

lemma not_fitted_generate [simp]: "\<not> is_not_fitted (generate dc what acc)"
  by (induction dc what acc rule: generate.induct) (simp_all add: Let_def)

text \<open>
  C1, as stated: \<open>transform\<close> on an instance of CatCaster that was never fitted raises
  Not-Fitted. On the table of its tests it returns the table with the column cast.
\<close>

theorem CatCaster_transform_before_fit_returns:
  "CatCaster_transform (CatCaster_init [''col_2'']) (DataFrame cat_df) =
     Inr [(''col_1'', num_col [1, 2, 3]),
          (''col_2'', \<lparr>dtype = Category, cells = [Str ''a'', Str ''b'', Str ''c'']\<rparr>),
          (''col_3'', num_col [4, 5, 6])]"
  by (simp add: CatCaster_transform_def CatCaster_init_def cat_df_def check_transform_DataFrame
        get_col_def repeated_def set_cols_def columns_def astype_category_def set_col_def)

text \<open>
  C1, amended: for NoInfoFeatureRemover, OutlierRemover, FeaturesOrder, ScalerPicker and
  SimpleImputerPicker, \<open>transform\<close> of any table on an instance as its constructor
  returned it raises the Not-Fitted error with the transformer's name. CatCaster and
  CalendarExtractor pass \<open>is_check_fill=False\<close> and never raise Not-Fitted, on any
  instance and any argument.
\<close>

theorem transform_before_fit:
  assumes "OutlierRemover_init cols method = Inr outlier_remover"
      and "SimpleImputerPicker_init strategy cfg = Inr imputer_picker"
  shows "NoInfoFeatureRemover_transform (NoInfoFeatureRemover_init cols_to_except verbose) (DataFrame T)
           = Inl (NotFittedError ''NoInfoFeatureRemover transformer was not fitted'')
       \<and> OutlierRemover_transform outlier_remover (DataFrame T)
           = Inl (NotFittedError ''OutlierRemover transformer was not fitted'')
       \<and> FeaturesOrder_transform (FeaturesOrder_init features_order) (DataFrame T)
           = Inl (NotFittedError ''OrderFeatures transformer was not fitted'')
       \<and> ScalerPicker_transform sk (ScalerPicker_init cols_to_scale scaler_type) (DataFrame T)
           = Inl (NotFittedError ''CustomScaler transformer was not fitted'')
       \<and> SimpleImputerPicker_transform sk imputer_picker (DataFrame T)
           = Inl (NotFittedError ''ConstantImputer transformer was not fitted'')
       \<and> \<not> is_not_fitted (CatCaster_transform cat_caster X)
       \<and> \<not> is_not_fitted (CalendarExtractor_transform parse calendar_extractor X)"
proof -
  have nf: "NoInfoFeatureRemover_transform (NoInfoFeatureRemover_init cols_to_except verbose) (DataFrame T)
           = Inl (NotFittedError ''NoInfoFeatureRemover transformer was not fitted'')"
    by (simp add: NoInfoFeatureRemover_transform_def NoInfoFeatureRemover_init_def
          check_transform_DataFrame falsy_def)
  from assms(1) have "or_col_thresholds outlier_remover = None"
    by (auto simp: OutlierRemover_init_def split: option.splits)
  then have orr: "OutlierRemover_transform outlier_remover (DataFrame T)
           = Inl (NotFittedError ''OutlierRemover transformer was not fitted'')"
    by (simp add: OutlierRemover_transform_def check_transform_DataFrame falsy_def)
  have fo: "FeaturesOrder_transform (FeaturesOrder_init features_order) (DataFrame T)
           = Inl (NotFittedError ''OrderFeatures transformer was not fitted'')"
    by (simp add: FeaturesOrder_transform_def FeaturesOrder_init_def check_transform_DataFrame falsy_def)
  have sp: "ScalerPicker_transform sk (ScalerPicker_init cols_to_scale scaler_type) (DataFrame T)
           = Inl (NotFittedError ''CustomScaler transformer was not fitted'')"
    by (simp add: ScalerPicker_transform_def ScalerPicker_init_def check_transform_DataFrame)
  from assms(2) have "si_imputer imputer_picker = ImpNone"
    by (auto simp: SimpleImputerPicker_init_def bindE_Inr_iff)
  then have si: "SimpleImputerPicker_transform sk imputer_picker (DataFrame T)
           = Inl (NotFittedError ''ConstantImputer transformer was not fitted'')"
    by (simp add: SimpleImputerPicker_transform_def check_transform_DataFrame imputer_falsy_def)
  have cc: "\<not> is_not_fitted (CatCaster_transform cat_caster X)"
    by (simp add: CatCaster_transform_def not_fitted_bindE)
  have ce: "\<not> is_not_fitted (CalendarExtractor_transform parse calendar_extractor X)"
    by (simp add: CalendarExtractor_transform_def to_datetime_def Let_def not_fitted_bindE)
  from nf orr fo sp si cc ce show ?thesis by simp
qed

theorem transform_before_fit_witness:
  "OutlierRemover_init (Some [''col_1'']) ''iqr''
     = Inr \<lparr>or_cols_to_transform = [''col_1''], or_method = ''iqr'', or_col_thresholds = None\<rparr>
   \<and> SimpleImputerPicker_init ''max'' (ColsList [''col_1''])
     = Inr \<lparr>si_cols_to_impute = ColsList [''col_1''], si_strategy = ''max'',
            si_imputer = (ImpNone :: cell imputer_state)\<rparr>
   \<and> NoInfoFeatureRemover_transform (NoInfoFeatureRemover_init None False) (DataFrame cat_df)
           = Inl (NotFittedError ''NoInfoFeatureRemover transformer was not fitted'')
   \<and> OutlierRemover_transform
         \<lparr>or_cols_to_transform = [''col_1''], or_method = ''iqr'', or_col_thresholds = None\<rparr>
         (DataFrame cat_df)
           = Inl (NotFittedError ''OutlierRemover transformer was not fitted'')
   \<and> SimpleImputerPicker_transform sk_constant
         \<lparr>si_cols_to_impute = ColsList [''col_1''], si_strategy = ''max'', si_imputer = ImpNone\<rparr>
         (DataFrame cat_df)
           = Inl (NotFittedError ''ConstantImputer transformer was not fitted'')
   \<and> \<not> is_not_fitted (CatCaster_transform (CatCaster_init [''col_2'']) (DataFrame cat_df))"
proof -
  have a: "OutlierRemover_init (Some [''col_1'']) ''iqr''
     = Inr \<lparr>or_cols_to_transform = [''col_1''], or_method = ''iqr'', or_col_thresholds = None\<rparr>"
    by (simp add: OutlierRemover_init_def)
  have b: "SimpleImputerPicker_init ''max'' (ColsList [''col_1''])
     = Inr \<lparr>si_cols_to_impute = ColsList [''col_1''], si_strategy = ''max'',
            si_imputer = (ImpNone :: cell imputer_state)\<rparr>"
    by (simp add: SimpleImputerPicker_init_def)
  from transform_before_fit [OF a b, of None False cat_df _ sk_constant _ _ "CatCaster_init [''col_2'']" "DataFrame cat_df"] a b
  show ?thesis by simp
qed

section \<open>The columns CalendarExtractor adds\<close>

lemma columns_drop_cols:
  "drop_cols T labels = Inr R \<Longrightarrow> columns R = filter (\<lambda>c. c \<notin> set labels) (columns T)"
  by (auto simp: drop_cols_def columns_def filter_map comp_def split: list.splits)

lemma columns_set_col:
  "columns (set_col T c v) = (if c \<in> set (columns T) then columns T else columns T @ [c])"
  by (simp add: set_col_def columns_def update_keys)

lemma get_col_Inr_columns: "get_col T c = Inr v \<Longrightarrow> c \<in> set (columns T)"
  by (auto simp: get_col_def columns_def split: option.splits if_splits dest: map_of_SomeD
        intro: rev_image_eqI)

lemma generate_all:
  "generate dc what_to_generate_all [] =
     Inr [(''year'', dt_field (\<lambda>y m d. y) dc), (''month'', dt_field (\<lambda>y m d. m) dc),
          (''day'', dt_field (\<lambda>y m d. d) dc), (''dayofweek'', dt_field dayofweek dc),
          (''dayofyear'', dt_field dayofyear dc)]"
  by (simp add: what_to_generate_all_def)

lemma CalendarExtractor_transform_columns:
  assumes "CalendarExtractor_transform parse \<lparr>ce_date_col = date_col, ce_calendar_level = None\<rparr>
             (DataFrame T) = Inr R"
  shows "columns R = filter (\<lambda>c. c \<noteq> date_col) (columns T)
                       @ [''year'', ''month'', ''day'', ''dayofweek'', ''dayofyear'']"
proof -
  from assms obtain c dc X2
    where c: "get_col T date_col = Inr c"
      and d: "drop_cols (set_col T date_col dc) [date_col] = Inr X2"
      and R: "R = X2 @ [(''year'', dt_field (\<lambda>y m d. y) dc), (''month'', dt_field (\<lambda>y m d. m) dc),
          (''day'', dt_field (\<lambda>y m d. d) dc), (''dayofweek'', dt_field dayofweek dc),
          (''dayofyear'', dt_field dayofyear dc)]"
    by (auto simp: CalendarExtractor_transform_def check_transform_DataFrame bindE_Inr_iff
          generate_all Let_def)
  from columns_drop_cols [OF d] get_col_Inr_columns [OF c]
  have "columns X2 = filter (\<lambda>c. c \<noteq> date_col) (columns T)"
    by (simp add: columns_set_col)
  with R show ?thesis by (simp add: columns_def)
qed

text \<open>
  C2: with \<open>calendar_level\<close> unset, \<open>transform\<close> appends one column for each of the six
  fields year, month, day, dayofweek, dayofyear and weekofyear. On the table of the tests
  the code returns five columns: the branch of weekofyear builds its column and does not
  append it. By \<open>CalendarExtractor_transform_columns\<close> the same holds on every table.
\<close>

theorem CalendarExtractor_unset_level_five_columns:
  "CalendarExtractor_transform iso_date (CalendarExtractor_init ''date'' None) (DataFrame date_df) =
     Inr [(''year'', num_col [2022, 2023]),
          (''month'', num_col [1, 2]),
          (''day'', num_col [1, 28]),
          (''dayofweek'', num_col [5, 1]),
          (''dayofyear'', num_col [1, 59])]"
  by code_simp

section \<open>Construction of a SimpleImputerPicker\<close>

text \<open>The check of the keys succeeds exactly when no two entries of the dict share a
  column.\<close>

lemma check_keys_Inr_iff:
  "check_key_tuple_empty_intersection d = Inr () \<longleftrightarrow>
     (\<forall>i j. i < j \<and> j < length d \<longrightarrow> set (fst (d ! i)) \<inter> set (fst (d ! j)) = {})"
proof (induction d)
  case Nil
  then show ?case by simp
next
  case (Cons p d)
  obtain k v where p: "p = (k, v)" by (cases p)
  have ex: "list_ex (\<lambda>q. list_ex (\<lambda>c. c \<in> set (fst q)) k) d \<longleftrightarrow>
              (\<exists>j < length d. set k \<inter> set (fst (d ! j)) \<noteq> {})"
  proof -
    have "list_ex (\<lambda>q. list_ex (\<lambda>c. c \<in> set (fst q)) k) d \<longleftrightarrow>
            (\<exists>q \<in> set d. set k \<inter> set (fst q) \<noteq> {})"
      by (auto simp: list_ex_iff)
    also have "\<dots> \<longleftrightarrow> (\<exists>j < length d. set k \<inter> set (fst (d ! j)) \<noteq> {})"
      by (metis in_set_conv_nth)
    finally show ?thesis .
  qed
  show ?case
  proof (cases "list_ex (\<lambda>q. list_ex (\<lambda>c. c \<in> set (fst q)) k) d")
    case True
    with ex obtain j where j: "j < length d" "set k \<inter> set (fst (d ! j)) \<noteq> {}" by blast
    then have "0 < Suc j \<and> Suc j < length (p # d) \<and> set (fst ((p # d) ! 0)) \<inter> set (fst ((p # d) ! Suc j)) \<noteq> {}"
      by (simp add: p)
    then have "\<not> (\<forall>i j. i < j \<and> j < length (p # d) \<longrightarrow> set (fst ((p # d) ! i)) \<inter> set (fst ((p # d) ! j)) = {})"
      by blast
    with True show ?thesis by (simp add: p)
  next
    case False
    with ex have hd: "\<forall>j < length d. set k \<inter> set (fst (d ! j)) = {}" by blast
    have "(\<forall>i j. i < j \<and> j < length (p # d) \<longrightarrow> set (fst ((p # d) ! i)) \<inter> set (fst ((p # d) ! j)) = {})
          \<longleftrightarrow> (\<forall>i j. i < j \<and> j < length d \<longrightarrow> set (fst (d ! i)) \<inter> set (fst (d ! j)) = {})"
      (is "?L \<longleftrightarrow> ?R")
    proof
      assume L: ?L
      show ?R
      proof (intro allI impI)
        fix i j assume "i < j \<and> j < length d"
        then have "Suc i < Suc j \<and> Suc j < length (p # d)" by simp
        with L have "set (fst ((p # d) ! Suc i)) \<inter> set (fst ((p # d) ! Suc j)) = {}" by blast
        then show "set (fst (d ! i)) \<inter> set (fst (d ! j)) = {}" by simp
      qed
    next
      assume R: ?R
      show ?L
      proof (intro allI impI)
        fix i j assume ij: "i < j \<and> j < length (p # d)"
        then obtain j' where j': "j = Suc j'" by (cases j) auto
        show "set (fst ((p # d) ! i)) \<inter> set (fst ((p # d) ! j)) = {}"
        proof (cases i)
          case 0
          with ij j' hd show ?thesis by (simp add: p)
        next
          case (Suc i')
          with ij j' R show ?thesis by simp
        qed
      qed
    qed
    with False Cons.IH show ?thesis by (simp add: p)
  qed
qed

text \<open>
  C3: constructing a SimpleImputerPicker with strategy constant and a dict in which some
  column appears in two keys raises a validation error (a ValueError); with keys that
  are pairwise disjoint the constructor returns the instance, its imputer unset.
\<close>

theorem SimpleImputerPicker_init_disjoint_keys:
  "((\<exists>i j. i < j \<and> j < length d \<and> set (fst (d ! i)) \<inter> set (fst (d ! j)) \<noteq> {})
      \<longrightarrow> is_value_error (SimpleImputerPicker_init ''constant'' (ColsDict d) :: error + 'm SimpleImputerPicker))
   \<and> (\<not> (\<exists>i j. i < j \<and> j < length d \<and> set (fst (d ! i)) \<inter> set (fst (d ! j)) \<noteq> {})
      \<longrightarrow> (SimpleImputerPicker_init ''constant'' (ColsDict d) :: error + 'm SimpleImputerPicker)
            = Inr \<lparr>si_cols_to_impute = ColsDict d, si_strategy = ''constant'', si_imputer = ImpNone\<rparr>)"
proof (cases "check_key_tuple_empty_intersection d")
  case (Inl e)
  have "\<exists>msg. e = ValueError msg"
    using Inl by (induction d) (auto split: if_splits)
  moreover from Inl have "check_key_tuple_empty_intersection d \<noteq> Inr ()" by simp
  then have "\<exists>i j. i < j \<and> j < length d \<and> set (fst (d ! i)) \<inter> set (fst (d ! j)) \<noteq> {}"
    unfolding check_keys_Inr_iff by blast
  ultimately show ?thesis
    using Inl by (auto simp: SimpleImputerPicker_init_def is_value_error_def)
next
  case (Inr u)
  then have "check_key_tuple_empty_intersection d = Inr ()" by simp
  then have "\<not> (\<exists>i j. i < j \<and> j < length d \<and> set (fst (d ! i)) \<inter> set (fst (d ! j)) \<noteq> {})"
    unfolding check_keys_Inr_iff by blast
  with Inr show ?thesis
    by (auto simp: SimpleImputerPicker_init_def)
qed

theorem SimpleImputerPicker_init_disjoint_keys_witness:
  "is_value_error (SimpleImputerPicker_init ''constant''
       (ColsDict [([''a'', ''b''], Num 0), ([''b'', ''c''], Num 1)]) :: error + cell SimpleImputerPicker)
   \<and> (SimpleImputerPicker_init ''constant''
       (ColsDict [([''a'', ''b''], Num 0), ([''c''], Num 1)]) :: error + cell SimpleImputerPicker)
     = Inr \<lparr>si_cols_to_impute = ColsDict [([''a'', ''b''], Num 0), ([''c''], Num 1)],
            si_strategy = ''constant'', si_imputer = ImpNone\<rparr>"
proof -
  let ?d1 = "[([''a'', ''b''], Num 0), ([''b'', ''c''], Num 1)]"
  let ?d2 = "[([''a'', ''b''], Num 0), ([''c''], Num 1)]"
  have "(0::nat) < 1 \<and> 1 < length ?d1 \<and> set (fst (?d1 ! 0)) \<inter> set (fst (?d1 ! 1)) \<noteq> {}"
    by simp
  then have o1: "\<exists>i j. i < j \<and> j < length ?d1 \<and> set (fst (?d1 ! i)) \<inter> set (fst (?d1 ! j)) \<noteq> {}"
    by blast
  have "check_key_tuple_empty_intersection ?d2 = Inr ()" by simp
  then have o2: "\<not> (\<exists>i j. i < j \<and> j < length ?d2 \<and> set (fst (?d2 ! i)) \<inter> set (fst (?d2 ! j)) \<noteq> {})"
    unfolding check_keys_Inr_iff by blast
  from SimpleImputerPicker_init_disjoint_keys [of ?d1, where 'm = cell] o1
       SimpleImputerPicker_init_disjoint_keys [of ?d2, where 'm = cell] o2
  show ?thesis by blast
qed

section \<open>SimpleImputerPicker.fit and entirely null columns\<close>

lemma value_error_bindE:
  "\<not> is_value_error m \<Longrightarrow> (\<And>x. \<not> is_value_error (f x)) \<Longrightarrow> \<not> is_value_error (bindE m f)"
  by (cases m) (simp_all add: is_value_error_def)

lemma value_error_simps [simp]:
  "\<not> is_value_error (Inr x)"
  "\<not> is_value_error (Inl (KeyError k))"
  "\<not> is_value_error (Inl TypeError)"
  "\<not> is_value_error (Inl AttributeError)"
  "\<not> is_value_error (Inl SklearnError)"
  "\<not> is_value_error (Inl Unmodelled)"
  "is_value_error (Inl (ValueError msg))"
  by (simp_all add: is_value_error_def)

lemma value_error_get_col [simp]: "\<not> is_value_error (get_col T c)"
  by (simp add: get_col_def split: option.splits)

lemma value_error_select_cols [simp]: "\<not> is_value_error (select_cols T cs)"
  by (induction cs) (simp_all add: value_error_bindE)

lemma value_error_sk_call [simp]: "\<not> is_value_error (sk_call r)"
  by (simp add: sk_call_def split: option.splits)

lemma value_error_num_of [simp]: "\<not> is_value_error (num_of x)"
  by (cases x) simp_all

lemma value_error_nums_of [simp]: "\<not> is_value_error (nums_of xs)"
  by (induction xs) (simp_all add: value_error_bindE)

lemma value_error_numeric [simp]: "\<not> is_value_error (numeric c)"
  by (simp add: numeric_def)

lemma value_error_fit_constant_loop [simp]: "\<not> is_value_error (fit_constant_loop sk T d imp)"
  by (induction sk T d imp rule: fit_constant_loop.induct) (simp_all add: value_error_bindE Let_def)

lemma value_error_fit_max_loop [simp]: "\<not> is_value_error (fit_max_loop sk T cs imp)"
  by (induction sk T cs imp rule: fit_max_loop.induct) (simp_all add: value_error_bindE)

lemma list_ex_all_null:
  "list_ex (\<lambda>p. all_null (snd p)) T \<longleftrightarrow> (\<exists>n c. (n, c) \<in> set T \<and> set (cells c) \<subseteq> {Null})"
  by (simp add: list_ex_iff all_null_def list_all_iff) force

text \<open>
  C4, as stated: a table whose only entirely null columns are outside the configured
  target columns is fitted without error. With target column \<open>a\<close> and an entirely null
  column \<open>b\<close>, \<open>fit\<close> raises.
\<close>

theorem SimpleImputerPicker_fit_null_column_outside_targets:
  "SimpleImputerPicker_fit sk_constant
     \<lparr>si_cols_to_impute = ColsList [''a''], si_strategy = ''max'', si_imputer = ImpNone\<rparr>
     (DataFrame null_b_df)
   = Inl (ValueError ''there are columns with all missing values'')"
  by (simp add: SimpleImputerPicker_fit_def check_fill_def null_b_df_def all_null_def)

text \<open>
  C4, amended: \<open>fit\<close> raises the validation error "there are columns with all missing
  values" when, and only when, some column of the table, target or not, is entirely
  null.
\<close>

theorem SimpleImputerPicker_fit_all_missing_iff:
  "SimpleImputerPicker_fit sk self (DataFrame T)
     = Inl (ValueError ''there are columns with all missing values'')
   \<longleftrightarrow> (\<exists>n c. (n, c) \<in> set T \<and> set (cells c) \<subseteq> {Null})"
proof (cases "list_ex (\<lambda>p. all_null (snd p)) T")
  case True
  then show ?thesis
    unfolding list_ex_all_null [symmetric]
    by (simp add: SimpleImputerPicker_fit_def check_fill_def)
next
  case False
  let ?cfg = "if si_cols_to_impute self = ColsNone then ColsList (columns T) else si_cols_to_impute self"
  let ?msg = "''there are columns with all missing values''"
  have "SimpleImputerPicker_fit sk self (DataFrame T) \<noteq> Inl (ValueError ?msg)"
  proof (cases "si_strategy self = ''constant'' \<or> si_strategy self \<in> set [''mean'', ''median'', ''most_frequent'']
                 \<or> si_strategy self = ''max''")
    case True
    with False have "\<not> is_value_error (SimpleImputerPicker_fit sk self (DataFrame T))"
      by (auto simp: SimpleImputerPicker_fit_def check_fill_def Let_def value_error_bindE
            split: cols_cfg.splits)
    then show ?thesis by (auto simp: is_value_error_def)
  next
    case other: False
    with False show ?thesis
      by (simp add: SimpleImputerPicker_fit_def check_fill_def Let_def)
  qed
  with False show ?thesis
    unfolding list_ex_all_null [symmetric] by simp
qed

section \<open>OutlierRemover with method skip\<close>

lemma skip_fit: "OutlierRemover_fit (remover ''skip'') (DataFrame [(''col_1'', num_col [0, 10])]) = Inr skip_fitted"
  by (simp add: OutlierRemover_fit_def OutlierRemover_fit_run_def returned_def column_thresholds_def
        remover_def skip_fitted_def check_fill_def columns_def get_col_def repeated_def
        bounds_def numeric_def num_col_def s_min_def s_max_def in_bounds_def ge_nan_def le_nan_def)

text \<open>
  C6: an OutlierRemover with method skip, fitted on any table, returns the configured
  columns of any later table with every value unchanged. Fitted on the column
  \<open>[0, 10]\<close>, the code stores the pair \<open>(0, 10)\<close> and clips the later column \<open>[-5, 20]\<close>
  to \<open>[0, 10]\<close>.
\<close>

theorem OutlierRemover_skip_clips_later_table:
  "bindE (OutlierRemover_fit (remover ''skip'') (DataFrame [(''col_1'', num_col [0, 10])]))
     (\<lambda>fitted. OutlierRemover_transform fitted (DataFrame [(''col_1'', num_col [-5, 20])]))
   = Inr [(''col_1'', num_col [0, 10])]"
  by (simp add: OutlierRemover_fit_def OutlierRemover_fit_run_def returned_def column_thresholds_def
        remover_def check_fill_def columns_def get_col_def repeated_def
        bounds_def numeric_def num_col_def s_min_def s_max_def in_bounds_def ge_nan_def le_nan_def
        OutlierRemover_transform_def check_transform_DataFrame falsy_def dict_get_def clip_def
        nan2_def clip_val_def set_col_def)

section \<open>OutlierRemover with method iqr\<close>

lemma repeated_columns:
  "repeated T c \<longleftrightarrow> 1 < length (filter (\<lambda>x. x = c) (columns T))"
proof -
  have "filter (\<lambda>x. x = c) (map fst T) = map fst (filter (\<lambda>p. fst p = c) T)"
    by (simp add: filter_map comp_def)
  then show ?thesis by (simp add: repeated_def columns_def)
qed



















lemma numeric_num_col: "numeric (num_col xs) = Inr (map Some xs)"
  by (induction xs) (simp_all add: numeric_def num_col_def)














section \<open>NoInfoFeatureRemover fitted on a table with nothing to remove\<close>

lemma distinct_not_repeated:
  assumes "distinct (columns T)"
  shows "\<not> repeated T col"
proof -
  have "{x. x = col} \<inter> set (columns T) \<subseteq> {col}" by blast
  then have "card ({x. x = col} \<inter> set (columns T)) \<le> card {col}"
    by (intro card_mono) simp_all
  with assms show ?thesis
    by (simp add: repeated_columns distinct_length_filter)
qed

lemma fit_loop_nothing_to_remove:
  assumes "distinct (columns T)"
      and "\<forall>(n, c) \<in> set T. n \<in> set ex \<or> 2 \<le> nunique c"
  shows "set cols \<subseteq> set (columns T) \<Longrightarrow> NoInfoFeatureRemover_fit_loop T ex cols acc = (acc, None)"
proof (induction cols)
  case Nil
  then show ?case by simp
next
  case (Cons col cols)
  from Cons.prems have "col \<in> fst ` set T" by (simp add: columns_def)
  then have "map_of T col \<noteq> None" by (simp add: map_of_eq_None_iff)
  then obtain c where m: "map_of T col = Some c" by blast
  then have "(col, c) \<in> set T" by (rule map_of_SomeD)
  with assms(2) have "col \<in> set ex \<or> 2 \<le> nunique c" by blast
  then have "\<not> (nunique c \<le> 1 \<and> col \<notin> set ex)" by auto
  moreover from m distinct_not_repeated [OF assms(1)] have "get_col T col = Inr c"
    by (simp add: get_col_def)
  moreover from Cons have "NoInfoFeatureRemover_fit_loop T ex cols acc = (acc, None)" by simp
  ultimately show ?case
    using distinct_not_repeated [OF assms(1)] by auto
qed

text \<open>
  C9: on a table with pairwise distinct column labels in which every column that is not
  exempted has at least two distinct non-null values, \<open>fit\<close> succeeds and learns the
  empty removal list, and a later \<open>transform\<close> of any table raises Not-Fitted, exactly as
  on the instance that was never fitted.
\<close>

theorem NoInfoFeatureRemover_fitted_empty_is_not_fitted:
  assumes "distinct (columns T)"
      and "\<forall>(n, c) \<in> set T. n \<in> set (nf_cols_to_except self) \<or> 2 \<le> nunique c"
  shows "NoInfoFeatureRemover_fit self (DataFrame T) = Inr (self\<lparr>nf_cols_to_remove := Some []\<rparr>)
       \<and> NoInfoFeatureRemover_transform (self\<lparr>nf_cols_to_remove := Some []\<rparr>) (DataFrame T')
           = Inl (NotFittedError ''NoInfoFeatureRemover transformer was not fitted'')
       \<and> NoInfoFeatureRemover_transform (self\<lparr>nf_cols_to_remove := None\<rparr>) (DataFrame T')
           = NoInfoFeatureRemover_transform (self\<lparr>nf_cols_to_remove := Some []\<rparr>) (DataFrame T')"
  using fit_loop_nothing_to_remove [OF assms, of "columns T" "[]"]
  by (simp add: NoInfoFeatureRemover_fit_def NoInfoFeatureRemover_fit_run_def returned_def
        NoInfoFeatureRemover_transform_def check_fill_def check_transform_DataFrame falsy_def)

theorem NoInfoFeatureRemover_fitted_empty_is_not_fitted_witness:
  "distinct (columns [(''col_1'', num_col [1, 2]), (''no_info_1'', num_col [1, 1])])
   \<and> 2 \<le> nunique (num_col [1, 2])
   \<and> ''no_info_1'' \<in> set (nf_cols_to_except (NoInfoFeatureRemover_init (Some [''no_info_1'']) False))
   \<and> NoInfoFeatureRemover_fit (NoInfoFeatureRemover_init (Some [''no_info_1'']) False)
         (DataFrame [(''col_1'', num_col [1, 2]), (''no_info_1'', num_col [1, 1])])
       = Inr \<lparr>nf_cols_to_remove = Some [], nf_cols_to_except = [''no_info_1''], nf_verbose = False\<rparr>
   \<and> NoInfoFeatureRemover_transform
         \<lparr>nf_cols_to_remove = Some [], nf_cols_to_except = [''no_info_1''], nf_verbose = False\<rparr>
         (DataFrame [(''col_1'', num_col [1, 2]), (''no_info_1'', num_col [1, 1])])
       = Inl (NotFittedError ''NoInfoFeatureRemover transformer was not fitted'')"
proof -
  let ?T = "[(''col_1'', num_col [1, 2]), (''no_info_1'', num_col [1, 1])]"
  let ?self = "NoInfoFeatureRemover_init (Some [''no_info_1'']) False"
  have d: "distinct (columns ?T)"
    by (simp add: columns_def)
  have h: "\<forall>(n, c) \<in> set ?T. n \<in> set (nf_cols_to_except ?self) \<or> 2 \<le> nunique c"
    by (simp add: NoInfoFeatureRemover_init_def nunique_def num_col_def)
  from NoInfoFeatureRemover_fitted_empty_is_not_fitted [OF d h, of ?T] d h
  show ?thesis
    by (simp add: NoInfoFeatureRemover_init_def nunique_def num_col_def)
qed

text \<open>On a table with a repeated label \<open>fit\<close> raises, though no column is without
  information and \<open>b\<close> is exempted.\<close>

lemma NoInfoFeatureRemover_fit_repeated_label:
  "NoInfoFeatureRemover_fit (NoInfoFeatureRemover_init (Some [''b'']) False)
     (DataFrame [(''a'', num_col [1, 2]), (''a'', num_col [3, 4]), (''b'', num_col [5, 5])])
   = Inl (ValueError ''The truth value of a Series is ambiguous. Use a.empty, a.bool(), a.item(), a.any() or a.all().'')"
  by (simp add: NoInfoFeatureRemover_fit_def NoInfoFeatureRemover_fit_run_def returned_def
        NoInfoFeatureRemover_init_def check_fill_def columns_def repeated_def)

section \<open>Fit overwrites the column configuration\<close>

lemma fit_loop_dom:
  "OutlierRemover_fit_loop m T cols th = (th', e) \<Longrightarrow>
     dom (map_of th') \<subseteq> dom (map_of th) \<union> set cols
     \<and> (e = None \<longrightarrow> dom (map_of th') = dom (map_of th) \<union> set cols)"
proof (induction cols arbitrary: th)
  case Nil
  then show ?case by simp
next
  case (Cons a cols)
  show ?case
  proof (cases "column_thresholds m T a")
    case (Inl err)
    with Cons.prems show ?thesis by auto
  next
    case (Inr v)
    with Cons.prems have "OutlierRemover_fit_loop m T cols (AList.update a v th) = (th', e)"
      by simp
    from Cons.IH [OF this] show ?thesis
      by (auto simp: update_conv')
  qed
qed

lemma dict_get_dom:
  "dict_get d k = (if k \<in> dom (map_of d) then Inr (the (map_of d k)) else Inl (KeyError k))"
  by (auto simp: dict_get_def split: option.splits)

lemma returned_Inr: "returned r = Inr s \<longleftrightarrow> r = (s, None)"
  by (cases r) (auto simp: returned_def split: option.splits)

lemma returned_Inr_snd: "returned r = Inr s \<Longrightarrow> snd r = None"
  by (simp add: returned_Inr)

lemma OutlierRemover_fit_run_cols:
  "or_cols_to_transform (fst (OutlierRemover_fit_run r (DataFrame T)))
     = filter (\<lambda>x. x \<in> set (columns T)) (or_cols_to_transform r)"
  by (simp add: OutlierRemover_fit_run_def check_fill_def Let_def)

lemma OutlierRemover_fit_run_thresholds:
  "\<exists>th. or_col_thresholds (fst (OutlierRemover_fit_run r (DataFrame T))) = Some th
        \<and> dom (map_of th) \<subseteq> set (or_cols_to_transform (fst (OutlierRemover_fit_run r (DataFrame T))))
        \<and> (snd (OutlierRemover_fit_run r (DataFrame T)) = None
             \<longrightarrow> dom (map_of th) = set (or_cols_to_transform (fst (OutlierRemover_fit_run r (DataFrame T)))))"
proof -
  let ?cols = "filter (\<lambda>x. x \<in> set (columns T)) (or_cols_to_transform r)"
  obtain th e where loop: "OutlierRemover_fit_loop (or_method r) T ?cols [] = (th, e)"
    by (cases "OutlierRemover_fit_loop (or_method r) T ?cols []")
  from fit_loop_dom [OF loop] loop show ?thesis
    by (simp add: OutlierRemover_fit_run_def check_fill_def Let_def)
qed

lemma ScalerPicker_fit_run_cols:
  "sp_cols_to_scale (fst (ScalerPicker_fit_run sk p (DataFrame T)))
     = filter (\<lambda>x. x \<in> set (columns T)) (sp_cols_to_scale p)"
  by (simp add: ScalerPicker_fit_run_def check_fill_def Let_def split: sum.splits option.splits)

lemma select_cols_columns: "select_cols T cs = Inr sub \<Longrightarrow> columns sub = cs"
  by (induction cs arbitrary: sub) (auto simp: bindE_Inr_iff columns_def)

lemma ScalerPicker_fit_run_scaler:
  assumes "snd (ScalerPicker_fit_run sk p (DataFrame T)) = None"
  shows "sp_scaler (fst (ScalerPicker_fit_run sk p (DataFrame T))) = ScalerSkip
         \<or> (\<exists>cls sub m.
               select_cols T (sp_cols_to_scale (fst (ScalerPicker_fit_run sk p (DataFrame T)))) = Inr sub
               \<and> columns sub = sp_cols_to_scale (fst (ScalerPicker_fit_run sk p (DataFrame T)))
               \<and> scaler_fit sk cls sub = Some m
               \<and> sp_scaler (fst (ScalerPicker_fit_run sk p (DataFrame T))) = ScalerFitted m)"
proof (cases "get_scaler_class (sp_scaler_type p)")
  case (Inl e)
  with assms show ?thesis
    by (simp add: ScalerPicker_fit_run_def check_fill_def Let_def)
next
  case (Inr scaler)
  show ?thesis
  proof (cases scaler)
    case None
    with Inr show ?thesis
      by (simp add: ScalerPicker_fit_run_def check_fill_def Let_def)
  next
    case (Some cls)
    let ?cols = "filter (\<lambda>x. x \<in> set (columns T)) (sp_cols_to_scale p)"
    from assms Inr Some obtain m
      where m: "bindE (select_cols T ?cols) (\<lambda>sub. sk_call (scaler_fit sk cls sub)) = Inr m"
      by (auto simp: ScalerPicker_fit_run_def check_fill_def Let_def split: sum.splits)
    then obtain sub where sub: "select_cols T ?cols = Inr sub" "scaler_fit sk cls sub = Some m"
      by (auto simp: bindE_Inr_iff sk_call_def split: option.splits)
    from Inr Some m have "sp_scaler (fst (ScalerPicker_fit_run sk p (DataFrame T))) = ScalerFitted m"
      by (simp add: ScalerPicker_fit_run_def check_fill_def Let_def)
    with sub select_cols_columns [OF sub(1)] show ?thesis
      by (auto simp: ScalerPicker_fit_run_cols)
  qed
qed

text \<open>
  C10: for OutlierRemover, ScalerPicker, CatCaster and WithAnotherColumnImputer, \<open>fit\<close>
  replaces the configured columns by those of them that the table has, also when it
  raises afterwards. So an instance fitted on a table \<open>T1\<close> without the column \<open>c\<close> and
  fitted again on a table \<open>T2\<close> with it no longer has \<open>c\<close> in its configuration and
  learns nothing for it: the OutlierRemover has no thresholds for \<open>c\<close>, and the scaler of
  the ScalerPicker is fitted on a sub-table without \<open>c\<close>. The instance as constructed
  with \<open>c\<close> configured, fitted on \<open>T2\<close>, keeps \<open>c\<close>, and where its \<open>fit\<close> returns it has
  learned for \<open>c\<close>. Each component is stated for its own instance, under no assumption
  on the others.
\<close>

theorem fit_overwrites_column_configuration:
  assumes absent: "c \<notin> set (columns T1)" and present: "c \<in> set (columns T2)"
  shows "(let r1 = fst (OutlierRemover_fit_run r (DataFrame T1));
              r2 = fst (OutlierRemover_fit_run r1 (DataFrame T2));
              r3 = fst (OutlierRemover_fit_run r (DataFrame T2))
          in or_cols_to_transform r1 = filter (\<lambda>x. x \<in> set (columns T1)) (or_cols_to_transform r)
           \<and> c \<notin> set (or_cols_to_transform r2)
           \<and> (\<exists>th. or_col_thresholds r2 = Some th \<and> dict_get th c = Inl (KeyError c))
           \<and> (c \<in> set (or_cols_to_transform r) \<longrightarrow> c \<in> set (or_cols_to_transform r3))
           \<and> (c \<in> set (or_cols_to_transform r) \<and> OutlierRemover_fit r (DataFrame T2) = Inr r3
                \<longrightarrow> (\<exists>th v. or_col_thresholds r3 = Some th \<and> dict_get th c = Inr v)))
       \<and> (let p1 = fst (ScalerPicker_fit_run sk p (DataFrame T1));
              p2 = fst (ScalerPicker_fit_run sk p1 (DataFrame T2));
              p3 = fst (ScalerPicker_fit_run sk p (DataFrame T2))
          in sp_cols_to_scale p1 = filter (\<lambda>x. x \<in> set (columns T1)) (sp_cols_to_scale p)
           \<and> c \<notin> set (sp_cols_to_scale p2)
           \<and> (ScalerPicker_fit sk p1 (DataFrame T2) = Inr p2
                \<longrightarrow> sp_scaler p2 = ScalerSkip
                    \<or> (\<exists>cls sub m. select_cols T2 (sp_cols_to_scale p2) = Inr sub
                          \<and> c \<notin> set (columns sub) \<and> scaler_fit sk cls sub = Some m
                          \<and> sp_scaler p2 = ScalerFitted m))
           \<and> (c \<in> set (sp_cols_to_scale p) \<longrightarrow> c \<in> set (sp_cols_to_scale p3))
           \<and> (c \<in> set (sp_cols_to_scale p) \<and> ScalerPicker_fit sk p (DataFrame T2) = Inr p3
                \<longrightarrow> sp_scaler p3 = ScalerSkip
                    \<or> (\<exists>cls sub m. select_cols T2 (sp_cols_to_scale p3) = Inr sub
                          \<and> c \<in> set (columns sub) \<and> scaler_fit sk cls sub = Some m
                          \<and> sp_scaler p3 = ScalerFitted m)))
       \<and> (\<exists>k1 k2 k3.
             CatCaster_fit k (DataFrame T1) = Inr k1 \<and> CatCaster_fit k1 (DataFrame T2) = Inr k2
             \<and> CatCaster_fit k (DataFrame T2) = Inr k3
             \<and> cc_cols_to_cast k1 = filter (\<lambda>x. x \<in> set (columns T1)) (cc_cols_to_cast k)
             \<and> c \<notin> set (cc_cols_to_cast k2)
             \<and> (c \<in> set (cc_cols_to_cast k) \<longrightarrow> c \<in> set (cc_cols_to_cast k3)))
       \<and> (\<exists>w1 w2 w3.
             WithAnotherColumnImputer_fit w (DataFrame T1) = Inr w1
             \<and> WithAnotherColumnImputer_fit w1 (DataFrame T2) = Inr w2
             \<and> WithAnotherColumnImputer_fit w (DataFrame T2) = Inr w3
             \<and> wa_cols_to_impute w1 = filter (\<lambda>q. fst q \<in> set (columns T1)) (wa_cols_to_impute w)
             \<and> c \<notin> fst ` set (wa_cols_to_impute w2)
             \<and> (c \<in> fst ` set (wa_cols_to_impute w) \<longrightarrow> c \<in> fst ` set (wa_cols_to_impute w3)))"
proof -
  let ?r1 = "fst (OutlierRemover_fit_run r (DataFrame T1))"
  let ?r2 = "fst (OutlierRemover_fit_run ?r1 (DataFrame T2))"
  let ?r3 = "fst (OutlierRemover_fit_run r (DataFrame T2))"
  from absent have c2: "c \<notin> set (or_cols_to_transform ?r2)"
    by (simp add: OutlierRemover_fit_run_cols)
  from OutlierRemover_fit_run_thresholds [of ?r1 T2] c2
  have t2: "\<exists>th. or_col_thresholds ?r2 = Some th \<and> dict_get th c = Inl (KeyError c)"
    by (auto simp: dict_get_dom)
  from present have c3: "c \<in> set (or_cols_to_transform r) \<longrightarrow> c \<in> set (or_cols_to_transform ?r3)"
    by (simp add: OutlierRemover_fit_run_cols)
  have t3: "\<exists>th v. or_col_thresholds ?r3 = Some th \<and> dict_get th c = Inr v"
    if "c \<in> set (or_cols_to_transform r)" "OutlierRemover_fit r (DataFrame T2) = Inr ?r3"
  proof -
    from that(2) have "snd (OutlierRemover_fit_run r (DataFrame T2)) = None"
      unfolding OutlierRemover_fit_def by (rule returned_Inr_snd)
    with OutlierRemover_fit_run_thresholds [of r T2] obtain th
      where th: "or_col_thresholds ?r3 = Some th" "dom (map_of th) = set (or_cols_to_transform ?r3)"
      by blast
    with that(1) c3 have "dict_get th c = Inr (the (map_of th c))" by (simp add: dict_get_dom)
    with th(1) show ?thesis by blast
  qed
  have remover: "or_cols_to_transform ?r1 = filter (\<lambda>x. x \<in> set (columns T1)) (or_cols_to_transform r)
           \<and> c \<notin> set (or_cols_to_transform ?r2)
           \<and> (\<exists>th. or_col_thresholds ?r2 = Some th \<and> dict_get th c = Inl (KeyError c))
           \<and> (c \<in> set (or_cols_to_transform r) \<longrightarrow> c \<in> set (or_cols_to_transform ?r3))
           \<and> (c \<in> set (or_cols_to_transform r) \<and> OutlierRemover_fit r (DataFrame T2) = Inr ?r3
                \<longrightarrow> (\<exists>th v. or_col_thresholds ?r3 = Some th \<and> dict_get th c = Inr v))"
    using c2 t2 c3 t3 by (simp add: OutlierRemover_fit_run_cols)
  let ?p1 = "fst (ScalerPicker_fit_run sk p (DataFrame T1))"
  let ?p2 = "fst (ScalerPicker_fit_run sk ?p1 (DataFrame T2))"
  let ?p3 = "fst (ScalerPicker_fit_run sk p (DataFrame T2))"
  from absent have d2: "c \<notin> set (sp_cols_to_scale ?p2)"
    by (simp add: ScalerPicker_fit_run_cols)
  from present have d3: "c \<in> set (sp_cols_to_scale p) \<longrightarrow> c \<in> set (sp_cols_to_scale ?p3)"
    by (simp add: ScalerPicker_fit_run_cols)
  have s2: "sp_scaler ?p2 = ScalerSkip
                    \<or> (\<exists>cls sub m. select_cols T2 (sp_cols_to_scale ?p2) = Inr sub
                          \<and> c \<notin> set (columns sub) \<and> scaler_fit sk cls sub = Some m
                          \<and> sp_scaler ?p2 = ScalerFitted m)"
    if "ScalerPicker_fit sk ?p1 (DataFrame T2) = Inr ?p2"
  proof -
    from that have "snd (ScalerPicker_fit_run sk ?p1 (DataFrame T2)) = None"
      unfolding ScalerPicker_fit_def by (rule returned_Inr_snd)
    from ScalerPicker_fit_run_scaler [OF this] d2 show ?thesis by metis
  qed
  have s3: "sp_scaler ?p3 = ScalerSkip
                    \<or> (\<exists>cls sub m. select_cols T2 (sp_cols_to_scale ?p3) = Inr sub
                          \<and> c \<in> set (columns sub) \<and> scaler_fit sk cls sub = Some m
                          \<and> sp_scaler ?p3 = ScalerFitted m)"
    if "c \<in> set (sp_cols_to_scale p)" "ScalerPicker_fit sk p (DataFrame T2) = Inr ?p3"
  proof -
    from that(2) have "snd (ScalerPicker_fit_run sk p (DataFrame T2)) = None"
      unfolding ScalerPicker_fit_def by (rule returned_Inr_snd)
    from ScalerPicker_fit_run_scaler [OF this] that(1) d3 show ?thesis by metis
  qed
  have scaler: "sp_cols_to_scale ?p1 = filter (\<lambda>x. x \<in> set (columns T1)) (sp_cols_to_scale p)
           \<and> c \<notin> set (sp_cols_to_scale ?p2)
           \<and> (ScalerPicker_fit sk ?p1 (DataFrame T2) = Inr ?p2
                \<longrightarrow> sp_scaler ?p2 = ScalerSkip
                    \<or> (\<exists>cls sub m. select_cols T2 (sp_cols_to_scale ?p2) = Inr sub
                          \<and> c \<notin> set (columns sub) \<and> scaler_fit sk cls sub = Some m
                          \<and> sp_scaler ?p2 = ScalerFitted m))
           \<and> (c \<in> set (sp_cols_to_scale p) \<longrightarrow> c \<in> set (sp_cols_to_scale ?p3))
           \<and> (c \<in> set (sp_cols_to_scale p) \<and> ScalerPicker_fit sk p (DataFrame T2) = Inr ?p3
                \<longrightarrow> sp_scaler ?p3 = ScalerSkip
                    \<or> (\<exists>cls sub m. select_cols T2 (sp_cols_to_scale ?p3) = Inr sub
                          \<and> c \<in> set (columns sub) \<and> scaler_fit sk cls sub = Some m
                          \<and> sp_scaler ?p3 = ScalerFitted m))"
    using d2 d3 s2 s3 ScalerPicker_fit_run_cols [of sk p T1] by blast
  have caster: "\<exists>k1 k2 k3.
             CatCaster_fit k (DataFrame T1) = Inr k1 \<and> CatCaster_fit k1 (DataFrame T2) = Inr k2
             \<and> CatCaster_fit k (DataFrame T2) = Inr k3
             \<and> cc_cols_to_cast k1 = filter (\<lambda>x. x \<in> set (columns T1)) (cc_cols_to_cast k)
             \<and> c \<notin> set (cc_cols_to_cast k2)
             \<and> (c \<in> set (cc_cols_to_cast k) \<longrightarrow> c \<in> set (cc_cols_to_cast k3))"
    using absent present by (simp add: CatCaster_fit_def check_fill_def)
  have imputer: "\<exists>w1 w2 w3.
             WithAnotherColumnImputer_fit w (DataFrame T1) = Inr w1
             \<and> WithAnotherColumnImputer_fit w1 (DataFrame T2) = Inr w2
             \<and> WithAnotherColumnImputer_fit w (DataFrame T2) = Inr w3
             \<and> wa_cols_to_impute w1 = filter (\<lambda>q. fst q \<in> set (columns T1)) (wa_cols_to_impute w)
             \<and> c \<notin> fst ` set (wa_cols_to_impute w2)
             \<and> (c \<in> fst ` set (wa_cols_to_impute w) \<longrightarrow> c \<in> fst ` set (wa_cols_to_impute w3))"
    using absent present by (auto simp: WithAnotherColumnImputer_fit_def check_fill_def)
  show ?thesis
    unfolding Let_def
    by (rule conjI [OF remover conjI [OF scaler conjI [OF caster imputer]]])
qed

text \<open>A \<open>fit\<close> that raises on an unknown method has overwritten the configuration and
  emptied the thresholds before.\<close>

lemma OutlierRemover_fit_run_unknown_method:
  "OutlierRemover_fit_run
     \<lparr>or_cols_to_transform = [''col_1'', ''col_2''], or_method = ''wrong_method'',
       or_col_thresholds = None\<rparr> (DataFrame first_df)
   = (\<lparr>or_cols_to_transform = [''col_1''], or_method = ''wrong_method'',
        or_col_thresholds = Some []\<rparr>,
      Some (ValueError ''unknown method wrong_method for outlier remover''))"
  by (simp add: OutlierRemover_fit_run_def check_fill_def columns_def first_df_def
        column_thresholds_def get_col_def repeated_def bounds_def)

text \<open>
  The instance with \<open>col_2\<close> missing from the first table, and for CatCaster and
  WithAnotherColumnImputer the table of CatCaster's tests, where \<open>col_2\<close> holds strings.
\<close>

lemma iqr_thresholds_two:
  "column_thresholds ''iqr'' first_df ''col_1'' = Inr (Some 1, Some 2)"
  "column_thresholds ''iqr'' second_df ''col_1'' = Inr (Some 1, Some 2)"
  "column_thresholds ''iqr'' second_df ''col_2'' = Inr (Some 10, Some 20)"
  by (simp_all add: column_thresholds_def first_df_def second_df_def get_col_def repeated_def
        bounds_def numeric_num_col s_quantile_def nan2_def Let_def in_bounds_def ge_nan_def
        le_nan_def s_min_def s_max_def)

lemma remover_runs:
  "OutlierRemover_fit_run both_remover (DataFrame first_df)
     = (\<lparr>or_cols_to_transform = [''col_1''], or_method = ''iqr'',
          or_col_thresholds = Some [(''col_1'', (Some 1, Some 2))]\<rparr>, None)"
  "OutlierRemover_fit_run \<lparr>or_cols_to_transform = [''col_1''], or_method = ''iqr'',
          or_col_thresholds = Some [(''col_1'', (Some 1, Some 2))]\<rparr> (DataFrame second_df)
     = (\<lparr>or_cols_to_transform = [''col_1''], or_method = ''iqr'',
          or_col_thresholds = Some [(''col_1'', (Some 1, Some 2))]\<rparr>, None)"
  "OutlierRemover_fit_run both_remover (DataFrame second_df)
     = (\<lparr>or_cols_to_transform = [''col_1'', ''col_2''], or_method = ''iqr'',
          or_col_thresholds = Some [(''col_1'', (Some 1, Some 2)), (''col_2'', (Some 10, Some 20))]\<rparr>,
        None)"
  by (simp_all add: OutlierRemover_fit_run_def both_remover_def check_fill_def iqr_thresholds_two)
     (simp_all add: columns_def first_df_def second_df_def)

lemma scaler_runs:
  "ScalerPicker_fit_run sk_minmax both_scaler (DataFrame first_df)
     = (\<lparr>sp_cols_to_scale = [''col_1''], sp_scaler_type = ''minmax'',
          sp_scaler = ScalerFitted [(1, 2)]\<rparr>, None)"
  "ScalerPicker_fit_run sk_minmax \<lparr>sp_cols_to_scale = [''col_1''], sp_scaler_type = ''minmax'',
          sp_scaler = ScalerFitted [(1, 2)]\<rparr> (DataFrame second_df)
     = (\<lparr>sp_cols_to_scale = [''col_1''], sp_scaler_type = ''minmax'',
          sp_scaler = ScalerFitted [(1, 2)]\<rparr>, None)"
  "ScalerPicker_fit_run sk_minmax both_scaler (DataFrame second_df)
     = (\<lparr>sp_cols_to_scale = [''col_1'', ''col_2''], sp_scaler_type = ''minmax'',
          sp_scaler = ScalerFitted [(1, 2), (10, 20)]\<rparr>, None)"
  by (simp_all add: ScalerPicker_fit_run_def both_scaler_def ScalerPicker_init_def first_df_def
        second_df_def check_fill_def columns_def get_scaler_class_def get_col_def repeated_def
        sk_call_def sk_minmax_def minmax_of_def numeric_num_col s_min_def s_max_def)

theorem fit_overwrites_column_configuration_witness:
  "OutlierRemover_fit both_remover (DataFrame first_df)
     = Inr \<lparr>or_cols_to_transform = [''col_1''], or_method = ''iqr'',
            or_col_thresholds = Some [(''col_1'', (Some 1, Some 2))]\<rparr>
   \<and> OutlierRemover_fit \<lparr>or_cols_to_transform = [''col_1''], or_method = ''iqr'',
            or_col_thresholds = Some [(''col_1'', (Some 1, Some 2))]\<rparr> (DataFrame second_df)
     = Inr \<lparr>or_cols_to_transform = [''col_1''], or_method = ''iqr'',
            or_col_thresholds = Some [(''col_1'', (Some 1, Some 2))]\<rparr>
   \<and> OutlierRemover_fit both_remover (DataFrame second_df)
     = Inr \<lparr>or_cols_to_transform = [''col_1'', ''col_2''], or_method = ''iqr'',
            or_col_thresholds = Some [(''col_1'', (Some 1, Some 2)), (''col_2'', (Some 10, Some 20))]\<rparr>
   \<and> (\<exists>v. dict_get [(''col_1'', (Some 1, Some 2)), (''col_2'', (Some 10, Some (20::real)))] ''col_2''
            = Inr (v :: real option \<times> real option))
   \<and> ScalerPicker_fit sk_minmax \<lparr>sp_cols_to_scale = [''col_1''], sp_scaler_type = ''minmax'',
            sp_scaler = ScalerFitted [(1, 2)]\<rparr> (DataFrame second_df)
     = Inr \<lparr>sp_cols_to_scale = [''col_1''], sp_scaler_type = ''minmax'',
            sp_scaler = ScalerFitted [(1, 2)]\<rparr>
   \<and> ScalerPicker_fit sk_minmax both_scaler (DataFrame second_df)
     = Inr \<lparr>sp_cols_to_scale = [''col_1'', ''col_2''], sp_scaler_type = ''minmax'',
            sp_scaler = ScalerFitted [(1, 2), (10, 20)]\<rparr>
   \<and> (\<exists>cls sub. select_cols second_df [''col_1'', ''col_2''] = Inr sub
          \<and> ''col_2'' \<in> set (columns sub)
          \<and> scaler_fit sk_minmax cls sub = Some [(1, 2), (10, 20)])
   \<and> (\<exists>k1 k2 k3.
         CatCaster_fit test_caster (DataFrame col_1_df) = Inr k1
         \<and> CatCaster_fit k1 (DataFrame cat_df) = Inr k2
         \<and> CatCaster_fit test_caster (DataFrame cat_df) = Inr k3
         \<and> ''col_2'' \<notin> set (cc_cols_to_cast k2) \<and> ''col_2'' \<in> set (cc_cols_to_cast k3))
   \<and> (\<exists>w1 w2 w3.
         WithAnotherColumnImputer_fit \<lparr>wa_cols_to_impute = [(''col_2'', ''col_1'')]\<rparr> (DataFrame col_1_df) = Inr w1
         \<and> WithAnotherColumnImputer_fit w1 (DataFrame cat_df) = Inr w2
         \<and> WithAnotherColumnImputer_fit \<lparr>wa_cols_to_impute = [(''col_2'', ''col_1'')]\<rparr> (DataFrame cat_df) = Inr w3
         \<and> ''col_2'' \<notin> fst ` set (wa_cols_to_impute w2) \<and> ''col_2'' \<in> fst ` set (wa_cols_to_impute w3))"
proof -
  have absent: "''col_2'' \<notin> set (columns first_df)"
    and present: "''col_2'' \<in> set (columns second_df)"
    and absent': "''col_2'' \<notin> set (columns col_1_df)"
    and present': "''col_2'' \<in> set (columns cat_df)"
    by (simp_all add: columns_def first_df_def second_df_def col_1_df_def cat_df_def)
  have r: "''col_2'' \<in> set (or_cols_to_transform both_remover)"
    by (simp add: both_remover_def)
  have p: "''col_2'' \<in> set (sp_cols_to_scale both_scaler)"
    by (simp add: both_scaler_def ScalerPicker_init_def)
  have k: "''col_2'' \<in> set (cc_cols_to_cast test_caster)"
    by (simp add: test_caster_def CatCaster_init_def)
  have w: "''col_2'' \<in> fst ` set (wa_cols_to_impute \<lparr>wa_cols_to_impute = [(''col_2'', ''col_1'')]\<rparr>)"
    by simp
  have fits:
    "OutlierRemover_fit both_remover (DataFrame first_df)
       = Inr \<lparr>or_cols_to_transform = [''col_1''], or_method = ''iqr'',
              or_col_thresholds = Some [(''col_1'', (Some 1, Some 2))]\<rparr>"
    "OutlierRemover_fit \<lparr>or_cols_to_transform = [''col_1''], or_method = ''iqr'',
              or_col_thresholds = Some [(''col_1'', (Some 1, Some 2))]\<rparr> (DataFrame second_df)
       = Inr \<lparr>or_cols_to_transform = [''col_1''], or_method = ''iqr'',
              or_col_thresholds = Some [(''col_1'', (Some 1, Some 2))]\<rparr>"
    "OutlierRemover_fit both_remover (DataFrame second_df)
       = Inr \<lparr>or_cols_to_transform = [''col_1'', ''col_2''], or_method = ''iqr'',
              or_col_thresholds = Some [(''col_1'', (Some 1, Some 2)), (''col_2'', (Some 10, Some 20))]\<rparr>"
    "ScalerPicker_fit sk_minmax \<lparr>sp_cols_to_scale = [''col_1''], sp_scaler_type = ''minmax'',
              sp_scaler = ScalerFitted [(1, 2)]\<rparr> (DataFrame second_df)
       = Inr \<lparr>sp_cols_to_scale = [''col_1''], sp_scaler_type = ''minmax'',
              sp_scaler = ScalerFitted [(1, 2)]\<rparr>"
    "ScalerPicker_fit sk_minmax both_scaler (DataFrame second_df)
       = Inr \<lparr>sp_cols_to_scale = [''col_1'', ''col_2''], sp_scaler_type = ''minmax'',
              sp_scaler = ScalerFitted [(1, 2), (10, 20)]\<rparr>"
    by (simp_all add: OutlierRemover_fit_def ScalerPicker_fit_def returned_def remover_runs scaler_runs)
  note numeric = fit_overwrites_column_configuration
                   [OF absent present, of both_remover sk_minmax both_scaler,
                    unfolded Let_def remover_runs scaler_runs fst_conv]
  note strings = fit_overwrites_column_configuration
                   [OF absent' present', of _ _ _ test_caster
                      "\<lparr>wa_cols_to_impute = [(''col_2'', ''col_1'')]\<rparr>"]
  from numeric r fits(3)
  have t: "\<exists>v. dict_get [(''col_1'', (Some 1, Some 2)), (''col_2'', (Some 10, Some (20::real)))] ''col_2''
             = Inr (v :: real option \<times> real option)"
    by auto
  from numeric p fits(5)
  have "\<exists>cls sub m. select_cols second_df [''col_1'', ''col_2''] = Inr sub
          \<and> ''col_2'' \<in> set (columns sub) \<and> scaler_fit sk_minmax cls sub = Some m
          \<and> ScalerFitted [(1, 2), (10, 20)] = ScalerFitted m"
    by auto
  then have s: "\<exists>cls sub. select_cols second_df [''col_1'', ''col_2''] = Inr sub
          \<and> ''col_2'' \<in> set (columns sub)
          \<and> scaler_fit sk_minmax cls sub = Some [(1, 2), (10, 20)]"
    by auto
  from strings k w
  have c: "\<exists>k1 k2 k3.
         CatCaster_fit test_caster (DataFrame col_1_df) = Inr k1
         \<and> CatCaster_fit k1 (DataFrame cat_df) = Inr k2
         \<and> CatCaster_fit test_caster (DataFrame cat_df) = Inr k3
         \<and> ''col_2'' \<notin> set (cc_cols_to_cast k2) \<and> ''col_2'' \<in> set (cc_cols_to_cast k3)"
    and i: "\<exists>w1 w2 w3.
         WithAnotherColumnImputer_fit \<lparr>wa_cols_to_impute = [(''col_2'', ''col_1'')]\<rparr> (DataFrame col_1_df) = Inr w1
         \<and> WithAnotherColumnImputer_fit w1 (DataFrame cat_df) = Inr w2
         \<and> WithAnotherColumnImputer_fit \<lparr>wa_cols_to_impute = [(''col_2'', ''col_1'')]\<rparr> (DataFrame cat_df) = Inr w3
         \<and> ''col_2'' \<notin> fst ` set (wa_cols_to_impute w2) \<and> ''col_2'' \<in> fst ` set (wa_cols_to_impute w3)"
    by blast+
  from fits t s c i show ?thesis by blast
qed

end
